theory Spec2Isabelle
  imports Complex_Main
begin

section \<open>Numbers and vectors\<close>

text \<open>
  The program is \<^verbatim>\<open>src/sketch.js\<close>. It is modelled twice. In the first model a
  JavaScript Number is a \<^typ>\<open>real\<close> and the arithmetic is exact: \<^verbatim>\<open>Math.PI\<close> is
  \<^term>\<open>pi\<close>, and \<^verbatim>\<open>Math.sin\<close>, \<^verbatim>\<open>Math.cos\<close> and \<^verbatim>\<open>Math.sqrt\<close> are the real
  functions. The second model, in the section on binary64 arithmetic, gives the vector
  methods, \<^verbatim>\<open>updateAlien\<close> and \<^verbatim>\<open>updateCamera\<close> with every result rounded as the
  code rounds it; its names end in \<^verbatim>\<open>64\<close>. A statement about a function without that
  suffix is a statement about the code in exact arithmetic.
\<close>

text \<open>
  The remainder operator \<^verbatim>\<open>a % b\<close> of JavaScript truncates the quotient towards
  zero, so the result has the sign of the dividend \<^verbatim>\<open>a\<close>.
\<close>

definition js_trunc :: "real \<Rightarrow> int" where
  "js_trunc q = (if 0 \<le> q then \<lfloor>q\<rfloor> else \<lceil>q\<rceil>)"

definition js_rem :: "real \<Rightarrow> real \<Rightarrow> real" where
  "js_rem a b = a - b * of_int (js_trunc (a / b))"

text \<open>
  \<^verbatim>\<open>THREE.Vector3\<close>. The library is not part of the repository; the methods the
  program calls are written out as three.js defines them:
  \<^verbatim>\<open>length\<close> is the Euclidean norm, \<^verbatim>\<open>multiplyScalar(s)\<close> scales each component,
  \<^verbatim>\<open>divideScalar(s)\<close> is \<^verbatim>\<open>multiplyScalar(1 / s)\<close>,
  \<^verbatim>\<open>normalize()\<close> is \<^verbatim>\<open>divideScalar(length() || 1)\<close> and
  \<^verbatim>\<open>setLength(l)\<close> is \<^verbatim>\<open>normalize().multiplyScalar(l)\<close>. The methods
  \<^verbatim>\<open>length\<close> and \<^verbatim>\<open>normalize\<close> are \<^term>\<open>vlength\<close> and \<^term>\<open>vnormalize\<close> here.
\<close>

record Vector3 =
  vx :: real
  vy :: real
  vz :: real

definition vec :: "real \<Rightarrow> real \<Rightarrow> real \<Rightarrow> Vector3" where
  "vec x y z = \<lparr>vx = x, vy = y, vz = z\<rparr>"

definition vlength :: "Vector3 \<Rightarrow> real" where
  "vlength v = sqrt (vx v * vx v + vy v * vy v + vz v * vz v)"

definition multiplyScalar :: "Vector3 \<Rightarrow> real \<Rightarrow> Vector3" where
  "multiplyScalar v s = vec (vx v * s) (vy v * s) (vz v * s)"

definition divideScalar :: "Vector3 \<Rightarrow> real \<Rightarrow> Vector3" where
  "divideScalar v s = multiplyScalar v (1 / s)"

definition vnormalize :: "Vector3 \<Rightarrow> Vector3" where
  "vnormalize v = divideScalar v (if vlength v = 0 then 1 else vlength v)"

definition setLength :: "Vector3 \<Rightarrow> real \<Rightarrow> Vector3" where
  "setLength v l = multiplyScalar (vnormalize v) l"

definition vsub :: "Vector3 \<Rightarrow> Vector3 \<Rightarrow> Vector3" where
  "vsub a b = vec (vx a - vx b) (vy a - vy b) (vz a - vz b)"

definition vadd :: "Vector3 \<Rightarrow> Vector3 \<Rightarrow> Vector3" where
  "vadd a b = vec (vx a + vx b) (vy a + vy b) (vz a + vz b)"

definition cross :: "Vector3 \<Rightarrow> Vector3 \<Rightarrow> Vector3" where
  "cross a b = vec (vy a * vz b - vz a * vy b)
                   (vz a * vx b - vx a * vz b)
                   (vx a * vy b - vy a * vx b)"

section \<open>Constants and state\<close>

definition BLOCK_SIZE :: real where
  "BLOCK_SIZE = 10"

definition CENTER_AXIS :: Vector3 where
  "CENTER_AXIS = vec 0 0 0"

definition PLANET_RADIUS :: real where
  "PLANET_RADIUS = 100 * BLOCK_SIZE"

definition ALIEN_DISTANCE :: real where
  "ALIEN_DISTANCE = 101 * BLOCK_SIZE"

definition ANGLE_SPEED :: real where
  "ANGLE_SPEED = 0.02"

definition ZOOM_SPEED :: real where
  "ZOOM_SPEED = 10"

definition MIN_ZOOM :: real where
  "MIN_ZOOM = 25"

definition MAX_ZOOM :: real where
  "MAX_ZOOM = 500"

record Spherical =
  theta :: real
  phi :: real

record Alien =
  position :: Vector3
  velocityY :: real
  isJumping :: bool
  onGround :: bool
  spherical :: Spherical

text \<open>
  Of the three.js camera only the pose is kept: its position and the point last
  handed to \<^verbatim>\<open>camera.lookAt\<close> (\<^term>\<open>None\<close> while \<^verbatim>\<open>lookAt\<close> has never been
  called and the camera still has its default orientation).
\<close>

record Camera =
  cam_position :: Vector3
  cam_lookAt :: "Vector3 option"

text \<open>
  The module-level variables the update functions read and write. \<^verbatim>\<open>keys\<close> is the
  object the key handlers fill; a key that was never pressed is absent from it.
\<close>

record Game =
  alien :: Alien
  keys :: "string \<rightharpoonup> bool"
  cameraDistance :: real
  camera :: Camera

definition initial :: Game where
  "initial =
     \<lparr>alien = \<lparr>position = vec 0 ALIEN_DISTANCE 0, velocityY = 0, isJumping = False,
               onGround = True, spherical = \<lparr>theta = 0, phi = 0\<rparr>\<rparr>,
      keys = Map.empty,
      cameraDistance = 200,
      camera = \<lparr>cam_position = vec 0 0 0, cam_lookAt = None\<rparr>\<rparr>"

text \<open>\<^verbatim>\<open>if (keys['w'])\<close>: an absent key is \<^verbatim>\<open>undefined\<close>, which is falsy.\<close>

definition pressed :: "Game \<Rightarrow> string \<Rightarrow> bool" where
  "pressed g k = (keys g k = Some True)"

section \<open>The update functions\<close>

text \<open>The two deltas \<^verbatim>\<open>handleInput\<close> accumulates from the W, A, S, D keys.\<close>

definition dTheta :: "Game \<Rightarrow> real" where
  "dTheta g =
     (let d0 = 0;
          d1 = (if pressed g ''w'' then d0 - ANGLE_SPEED else d0);
          d2 = (if pressed g ''s'' then d1 + ANGLE_SPEED else d1)
      in d2)"

definition dPhi :: "Game \<Rightarrow> real" where
  "dPhi g =
     (let d0 = 0;
          d1 = (if pressed g ''a'' then d0 - ANGLE_SPEED else d0);
          d2 = (if pressed g ''d'' then d1 + ANGLE_SPEED else d1)
      in d2)"

text \<open>The body of \<^verbatim>\<open>if (dTheta !== 0 || dPhi !== 0)\<close>, lines 170 to 181.\<close>

definition applyAngles :: "Game \<Rightarrow> Game" where
  "applyAngles g =
     (let theta' = min (max 0.01 (theta (spherical (alien g)) + dTheta g)) (pi - 0.01);
          phi' = js_rem (phi (spherical (alien g)) + dPhi g) (pi * 2);
          r = ALIEN_DISTANCE;
          sinT = sin theta';
          x = r * sinT * sin phi';
          y = r * cos theta';
          z = r * sinT * cos phi'
      in g\<lparr>alien := (alien g)\<lparr>spherical := \<lparr>theta = theta', phi = phi'\<rparr>,
                               position := vec x y z\<rparr>\<rparr>)"

text \<open>The zoom controls, lines 185 to 192.\<close>

definition zoomIn :: "Game \<Rightarrow> Game" where
  "zoomIn g =
     (if pressed g ''o''
      then g\<lparr>cameraDistance := max MIN_ZOOM (cameraDistance g - ZOOM_SPEED)\<rparr>
      else g)"

definition zoomOut :: "Game \<Rightarrow> Game" where
  "zoomOut g =
     (if pressed g ''p''
      then g\<lparr>cameraDistance := min MAX_ZOOM (cameraDistance g + ZOOM_SPEED)\<rparr>
      else g)"

definition handleInput :: "Game \<Rightarrow> Game" where
  "handleInput g =
     zoomOut (zoomIn (if dTheta g \<noteq> 0 \<or> dPhi g \<noteq> 0 then applyAngles g else g))"

definition updateAlien :: "Game \<Rightarrow> Game" where
  "updateAlien g =
     (if vlength (position (alien g)) = 0 then g
      else g\<lparr>alien := (alien g)\<lparr>position := setLength (position (alien g)) ALIEN_DISTANCE\<rparr>\<rparr>)"

text \<open>
  \<^verbatim>\<open>updateCamera\<close>, lines 207 to 220. The debug line it then adds to the scene is
  a rendering object and is not part of the state.
\<close>

definition updateCamera :: "Game \<Rightarrow> Game" where
  "updateCamera g =
     (let alienPos = position (alien g)
      in if vlength alienPos = 0 then g
         else
           (let dir = vnormalize alienPos;
                camDistFromCenter = ALIEN_DISTANCE + cameraDistance g;
                camPos = multiplyScalar dir camDistFromCenter
            in g\<lparr>camera := \<lparr>cam_position = camPos, cam_lookAt = Some alienPos\<rparr>\<rparr>))"

text \<open>
  One frame of \<^verbatim>\<open>animate\<close>. \<^verbatim>\<open>updateAlienPosition\<close> runs between
  \<^verbatim>\<open>updateAlien\<close> and \<^verbatim>\<open>updateCamera\<close>; it only copies the position to the mesh
  and sets the rotation of the mesh, and reads \<^verbatim>\<open>alien.position\<close> through a clone.
\<close>

definition animate :: "Game \<Rightarrow> Game" where
  "animate g = updateCamera (updateAlien (handleInput g))"

text \<open>
  A run of frames: between two frames the key handlers leave some key object; each
  element of the list is the key object one frame sees.
\<close>

fun frames :: "(string \<rightharpoonup> bool) list \<Rightarrow> Game \<Rightarrow> Game" where
  "frames [] g = g"
| "frames (ks # kss) g = frames kss (animate (g\<lparr>keys := ks\<rparr>))"

section \<open>Definitions used to state the properties\<close>

text \<open>The clamp of the specification: \<^verbatim>\<open>clamp(x, lo, hi)\<close>.\<close>

definition clamp :: "real \<Rightarrow> real \<Rightarrow> real \<Rightarrow> real" where
  "clamp x lo hi = (if x < lo then lo else if hi < x then hi else x)"

text \<open>
  The reprojection of the specification: with radius \<^verbatim>\<open>r\<close>, polar angle \<^verbatim>\<open>t\<close> and
  azimuth \<^verbatim>\<open>p\<close>, \<^verbatim>\<open>x = r sin t sin p\<close>, \<^verbatim>\<open>y = r cos t\<close>, \<^verbatim>\<open>z = r sin t cos p\<close>.
\<close>

definition reprojection :: "real \<Rightarrow> Spherical \<Rightarrow> Vector3" where
  "reprojection r s = vec (r * sin (theta s) * sin (phi s)) (r * cos (theta s))
                          (r * sin (theta s) * cos (phi s))"

text \<open>The key object in which exactly the key \<^verbatim>\<open>k\<close> is down.\<close>

definition holding :: "string \<Rightarrow> (string \<rightharpoonup> bool)" where
  "holding k = Map.empty(k \<mapsto> True)"

section \<open>Binary64 arithmetic\<close>

text \<open>
  The program computes in IEEE 754 binary64. \<^term>\<open>fl64\<close> rounds a real to the nearest
  number with a 53-bit significand, ties to the even significand; the exponent range is
  not bounded, so \<^term>\<open>fl64\<close> is the rounding of the code wherever no result overflows
  or falls below \<^verbatim>\<open>2^-1022\<close>. NaN, the infinities and the sign of zero are not
  modelled. \<^verbatim>\<open>Math.sqrt\<close> and the four operations round their exact result once.
\<close>

definition rne :: "real \<Rightarrow> int" where
  "rne y =
     (let f = \<lfloor>y\<rfloor>; d = y - of_int f
      in if d < 1 / 2 then f else if 1 / 2 < d then f + 1 else if even f then f else f + 1)"

definition ulp64 :: "real \<Rightarrow> real" where
  "ulp64 x = 2 powr (of_int \<lfloor>log 2 \<bar>x\<bar>\<rfloor> - 52)"

definition fl64 :: "real \<Rightarrow> real" where
  "fl64 x = (if x = 0 then 0 else of_int (rne (x / ulp64 x)) * ulp64 x)"

text \<open>
  The vector methods and the two update functions that use them, with every result
  rounded as the code rounds it: \<^verbatim>\<open>length\<close> is
  \<^verbatim>\<open>Math.sqrt(x * x + y * y + z * z)\<close>, summed from the left.
\<close>

definition length64 :: "Vector3 \<Rightarrow> real" where
  "length64 v =
     fl64 (sqrt (fl64 (fl64 (fl64 (vx v * vx v) + fl64 (vy v * vy v)) + fl64 (vz v * vz v))))"

definition multiplyScalar64 :: "Vector3 \<Rightarrow> real \<Rightarrow> Vector3" where
  "multiplyScalar64 v s = vec (fl64 (vx v * s)) (fl64 (vy v * s)) (fl64 (vz v * s))"

definition divideScalar64 :: "Vector3 \<Rightarrow> real \<Rightarrow> Vector3" where
  "divideScalar64 v s = multiplyScalar64 v (fl64 (1 / s))"

definition normalize64 :: "Vector3 \<Rightarrow> Vector3" where
  "normalize64 v = divideScalar64 v (if length64 v = 0 then 1 else length64 v)"

definition setLength64 :: "Vector3 \<Rightarrow> real \<Rightarrow> Vector3" where
  "setLength64 v l = multiplyScalar64 (normalize64 v) l"

text \<open>
  \<^verbatim>\<open>crossVectors\<close> of three.js, for the cross product as a program would test it.
\<close>

definition cross64 :: "Vector3 \<Rightarrow> Vector3 \<Rightarrow> Vector3" where
  "cross64 a b = vec (fl64 (fl64 (vy a * vz b) - fl64 (vz a * vy b)))
                     (fl64 (fl64 (vz a * vx b) - fl64 (vx a * vz b)))
                     (fl64 (fl64 (vx a * vy b) - fl64 (vy a * vx b)))"

definition updateAlien64 :: "Game \<Rightarrow> Game" where
  "updateAlien64 g =
     (if length64 (position (alien g)) = 0 then g
      else g\<lparr>alien := (alien g)\<lparr>position := setLength64 (position (alien g)) ALIEN_DISTANCE\<rparr>\<rparr>)"

definition updateCamera64 :: "Game \<Rightarrow> Game" where
  "updateCamera64 g =
     (let alienPos = position (alien g)
      in if length64 alienPos = 0 then g
         else
           (let dir = normalize64 alienPos;
                camDistFromCenter = fl64 (ALIEN_DISTANCE + cameraDistance g);
                camPos = multiplyScalar64 dir camDistFromCenter
            in g\<lparr>camera := \<lparr>cam_position = camPos, cam_lookAt = Some alienPos\<rparr>\<rparr>))"

text \<open>
  Two states at the call of \<^verbatim>\<open>updateCamera\<close>, with the binary64 position the code
  has there when \<^verbatim>\<open>Math.sin\<close> and \<^verbatim>\<open>Math.cos\<close> return the binary64 numbers
  nearest to the sine and the cosine. The first is the first frame of a run, with W
  down: the position is \<^verbatim>\<open>(0, 1009.9495004208319, 10.099831667508331)\<close>. The second
  is the third frame of a run with A down, then S, then S: the position is
  \<^verbatim>\<open>(-1.0095119153325103, 1008.7377629989157, 50.46886550771435)\<close>. The zoom distance
  is 200 in both, and the angles are the ones the code has stored.
\<close>

definition afterW :: Game where
  "afterW =
     initial\<lparr>alien := (alien initial)
       \<lparr>position := vec 0 (8883609753434135 / 2 ^ 43) (5685699766786907 / 2 ^ 49),
        spherical := \<lparr>theta = 5764607523034235 / 2 ^ 59, phi = 0\<rparr>\<rparr>\<rparr>"

definition afterASS :: Game where
  "afterASS =
     initial\<lparr>alien := (alien initial)
       \<lparr>position := vec (- (4546437485717569 / 2 ^ 52)) (4436475599176235 / 2 ^ 42)
                          (7102861371698563 / 2 ^ 47),
        spherical := \<lparr>theta = 3602879701896397 / 2 ^ 56, phi = - (5764607523034235 / 2 ^ 58)\<rparr>\<rparr>\<rparr>"

text \<open>
  \<^term>\<open>lengthSq\<close> is the exact sum of the squares of the components.
  \<^term>\<open>near k a b\<close>: each of \<^term>\<open>a\<close> and \<^term>\<open>b\<close> is at least the other times
  \<^verbatim>\<open>(1 - 2^-53)^k\<close>, the relative error \<^term>\<open>k\<close> roundings can leave.
\<close>

definition lengthSq :: "Vector3 \<Rightarrow> real" where
  "lengthSq v = vx v * vx v + vy v * vy v + vz v * vz v"

definition near :: "nat \<Rightarrow> real \<Rightarrow> real \<Rightarrow> bool" where
  "near k a b = ((1 - 1 / 2 ^ 53) ^ k * b \<le> a \<and> (1 - 1 / 2 ^ 53) ^ k * a \<le> b)"

section \<open>Vector facts\<close>

lemma vec_sel [simp]: "vx (vec x y z) = x" "vy (vec x y z) = y" "vz (vec x y z) = z"
  by (simp_all add: vec_def)

lemma vec_eq_iff: "vec a b c = vec x y z \<longleftrightarrow> a = x \<and> b = y \<and> c = z"
  by (simp add: vec_def)

lemma vec_eta: "vec (vx v) (vy v) (vz v) = v"
  by (simp add: vec_def)

lemma vlength_vec: "vlength (vec x y z) = sqrt (x * x + y * y + z * z)"
  by (simp add: vlength_def)

lemma vlength_nonneg: "0 \<le> vlength v"
  by (simp add: vlength_def)

lemma vlength_zero_iff: "vlength v = 0 \<longleftrightarrow> v = vec 0 0 0"
proof
  assume "vlength v = 0"
  then have "vx v * vx v + vy v * vy v + vz v * vz v = 0"
    by (simp add: vlength_def)
  then have "vx v = 0 \<and> vy v = 0 \<and> vz v = 0"
    by (metis add_nonneg_eq_0_iff mult_eq_0_iff zero_le_square add_nonneg_nonneg)
  then show "v = vec 0 0 0"
    by (simp add: vec_def)
next
  assume "v = vec 0 0 0"
  then show "vlength v = 0"
    by (simp add: vlength_def)
qed

lemma vlength_multiplyScalar: "vlength (multiplyScalar v s) = \<bar>s\<bar> * vlength v"
proof -
  have "vx v * s * (vx v * s) + vy v * s * (vy v * s) + vz v * s * (vz v * s)
      = (s * s) * (vx v * vx v + vy v * vy v + vz v * vz v)"
    by (simp add: algebra_simps)
  then show ?thesis
    by (simp add: vlength_def multiplyScalar_def real_sqrt_mult)
qed

lemma vlength_normalize: "vlength v \<noteq> 0 \<Longrightarrow> vlength (vnormalize v) = 1"
  using vlength_nonneg [of v]
  by (simp add: vnormalize_def divideScalar_def vlength_multiplyScalar)

lemma vlength_setLength: "vlength v \<noteq> 0 \<Longrightarrow> vlength (setLength v l) = \<bar>l\<bar>"
  by (simp add: setLength_def vlength_multiplyScalar vlength_normalize)

lemma sphere_norm:
  "vlength (vec (r * sin t * sin p) (r * cos t) (r * sin t * cos p)) = \<bar>r\<bar>"
proof -
  have p1: "sin p * sin p + cos p * cos p = 1"
    using sin_cos_squared_add [of p] by (simp add: power2_eq_square)
  have t1: "sin t * sin t + cos t * cos t = 1"
    using sin_cos_squared_add [of t] by (simp add: power2_eq_square)
  have "r * sin t * sin p * (r * sin t * sin p) + r * cos t * (r * cos t)
        + r * sin t * cos p * (r * sin t * cos p)
      = r * r * (sin t * sin t * (sin p * sin p + cos p * cos p) + cos t * cos t)"
    by (simp only: algebra_simps)
  also have "\<dots> = r * r"
    by (simp only: p1 t1 mult_1_right)
  finally show ?thesis
    by (simp add: vlength_vec)
qed

lemma setLength_same: "vlength v = l \<Longrightarrow> l \<noteq> 0 \<Longrightarrow> setLength v l = v"
  by (simp add: setLength_def vnormalize_def divideScalar_def multiplyScalar_def vec_def)

section \<open>What each update function changes\<close>

lemma pressed_updates [simp]:
  "pressed (g\<lparr>alien := a\<rparr>) k = pressed g k"
  "pressed (g\<lparr>cameraDistance := d\<rparr>) k = pressed g k"
  "pressed (g\<lparr>camera := c\<rparr>) k = pressed g k"
  by (simp_all add: pressed_def)

lemma alien_handleInput:
  "alien (handleInput g) = (if dTheta g \<noteq> 0 \<or> dPhi g \<noteq> 0 then alien (applyAngles g) else alien g)"
  by (simp add: handleInput_def zoomOut_def zoomIn_def)

lemma camera_handleInput: "camera (handleInput g) = camera g"
  by (simp add: handleInput_def zoomOut_def zoomIn_def applyAngles_def Let_def)

lemma pressed_applyAngles [simp]: "pressed (applyAngles g) k = pressed g k"
  by (simp add: applyAngles_def Let_def)

lemma cameraDistance_applyAngles [simp]: "cameraDistance (applyAngles g) = cameraDistance g"
  by (simp add: applyAngles_def Let_def)

lemma cameraDistance_handleInput:
  "cameraDistance (handleInput g) =
     (let d1 = (if pressed g ''o'' then max MIN_ZOOM (cameraDistance g - ZOOM_SPEED)
                else cameraDistance g)
      in if pressed g ''p'' then min MAX_ZOOM (d1 + ZOOM_SPEED) else d1)"
  by (simp add: handleInput_def zoomOut_def zoomIn_def Let_def)

lemma theta_applyAngles:
  "theta (spherical (alien (applyAngles g))) =
     min (max 0.01 (theta (spherical (alien g)) + dTheta g)) (pi - 0.01)"
  by (simp add: applyAngles_def Let_def)

lemma phi_applyAngles:
  "phi (spherical (alien (applyAngles g))) =
     js_rem (phi (spherical (alien g)) + dPhi g) (pi * 2)"
  by (simp add: applyAngles_def Let_def)

lemma spherical_updateAlien: "spherical (alien (updateAlien g)) = spherical (alien g)"
  by (simp add: updateAlien_def)

lemma spherical_updateCamera: "spherical (alien (updateCamera g)) = spherical (alien g)"
  by (simp add: updateCamera_def Let_def)

lemma alien_updateCamera: "alien (updateCamera g) = alien g"
  by (simp add: updateCamera_def Let_def)

lemma cameraDistance_updateAlien: "cameraDistance (updateAlien g) = cameraDistance g"
  by (simp add: updateAlien_def)

lemma cameraDistance_updateCamera: "cameraDistance (updateCamera g) = cameraDistance g"
  by (simp add: updateCamera_def Let_def)

lemma spherical_animate: "spherical (alien (animate g)) = spherical (alien (handleInput g))"
  by (simp add: animate_def spherical_updateCamera spherical_updateAlien)

lemma cameraDistance_animate: "cameraDistance (animate g) = cameraDistance (handleInput g)"
  by (simp add: animate_def cameraDistance_updateCamera cameraDistance_updateAlien)

lemma pi_bounds: "0.01 \<le> pi - 0.01" "0.02 < pi - 0.01" "0 < pi * 2"
  using pi_ge_two by simp_all

lemma clamp_min_max: "lo \<le> hi \<Longrightarrow> min (max lo x) hi = clamp x lo hi"
  by (simp add: clamp_def min_def max_def)

section \<open>The polar angle and the keys\<close>

lemma frames_snoc: "frames (kss @ [ks]) g = animate ((frames kss g)\<lparr>keys := ks\<rparr>)"
  by (induction kss arbitrary: g) simp_all

lemma theta_handleInput:
  "theta (spherical (alien (handleInput g))) =
     (if dTheta g \<noteq> 0 \<or> dPhi g \<noteq> 0
      then min (max 0.01 (theta (spherical (alien g)) + dTheta g)) (pi - 0.01)
      else theta (spherical (alien g)))"
  by (simp add: alien_handleInput theta_applyAngles)

lemma min_max_range:
  fixes lo hi x :: real
  shows "lo \<le> hi \<Longrightarrow> lo \<le> min (max lo x) hi \<and> min (max lo x) hi \<le> hi"
  by (simp add: min_def max_def)

lemma theta_handleInput_range:
  assumes "0.01 \<le> theta (spherical (alien g))" and "theta (spherical (alien g)) \<le> pi - 0.01"
  shows "0.01 \<le> theta (spherical (alien (handleInput g)))
       \<and> theta (spherical (alien (handleInput g))) \<le> pi - 0.01"
  using assms min_max_range [OF pi_bounds(1)] by (simp only: theta_handleInput split: if_split) blast

lemma theta_frames_range:
  "0.01 \<le> theta (spherical (alien g)) \<Longrightarrow> theta (spherical (alien g)) \<le> pi - 0.01 \<Longrightarrow>
   0.01 \<le> theta (spherical (alien (frames kss g)))
     \<and> theta (spherical (alien (frames kss g))) \<le> pi - 0.01"
proof (induction kss arbitrary: g)
  case Nil
  then show ?case by simp
next
  case (Cons ks kss)
  let ?g = "animate (g\<lparr>keys := ks\<rparr>)"
  have "0.01 \<le> theta (spherical (alien ?g)) \<and> theta (spherical (alien ?g)) \<le> pi - 0.01"
    unfolding spherical_animate
    by (rule theta_handleInput_range) (use Cons.prems in simp_all)
  then show ?case
    using Cons.IH [of ?g] by simp
qed

lemma holding_w [simp]:
  "pressed (g\<lparr>keys := holding k\<rparr>) k' = (k' = k)"
  by (auto simp add: pressed_def holding_def)

lemma dTheta_w: "dTheta (g\<lparr>keys := holding ''w''\<rparr>) = - 0.02"
  by (simp add: dTheta_def ANGLE_SPEED_def)

lemma dPhi_a: "dPhi (g\<lparr>keys := holding ''a''\<rparr>) = - 0.02"
  by (simp add: dPhi_def ANGLE_SPEED_def)

lemma dTheta_a: "dTheta (g\<lparr>keys := holding ''a''\<rparr>) = 0"
  by (simp add: dTheta_def ANGLE_SPEED_def)

lemma dPhi_w: "dPhi (g\<lparr>keys := holding ''w''\<rparr>) = 0"
  by (simp add: dPhi_def ANGLE_SPEED_def)

lemma theta_forward:
  "theta (spherical (alien g)) \<le> 0.03 \<Longrightarrow>
   theta (spherical (alien (animate (g\<lparr>keys := holding ''w''\<rparr>)))) = 0.01"
  using pi_bounds(1) by (simp add: spherical_animate theta_handleInput dTheta_w min_def max_def)

lemma theta_forward_run:
  "theta (spherical (alien g)) \<le> 0.03 \<Longrightarrow>
   theta (spherical (alien (frames (replicate (Suc n) (holding ''w'')) g))) = 0.01"
proof (induction n arbitrary: g)
  case 0
  then show ?case by (simp add: theta_forward)
next
  case (Suc n)
  let ?g = "animate (g\<lparr>keys := holding ''w''\<rparr>)"
  have "theta (spherical (alien ?g)) \<le> 0.03"
    using theta_forward [OF Suc.prems] by simp
  from Suc.IH [OF this] show ?case by simp
qed

lemma theta_initial: "theta (spherical (alien initial)) = 0"
  by (simp add: initial_def)

section \<open>The zoom distance, the initial state and the remainder\<close>

lemma zoom_step:
  assumes "MIN_ZOOM \<le> cameraDistance g" and "cameraDistance g \<le> MAX_ZOOM"
  shows "MIN_ZOOM \<le> cameraDistance (handleInput g)
       \<and> cameraDistance (handleInput g) \<le> MAX_ZOOM
       \<and> \<bar>cameraDistance (handleInput g) - cameraDistance g\<bar> \<le> ZOOM_SPEED"
  using assms
  by (simp add: cameraDistance_handleInput MIN_ZOOM_def MAX_ZOOM_def ZOOM_SPEED_def
      Let_def min_def max_def)

lemma zoom_frames:
  "MIN_ZOOM \<le> cameraDistance g \<Longrightarrow> cameraDistance g \<le> MAX_ZOOM \<Longrightarrow>
   MIN_ZOOM \<le> cameraDistance (frames kss g) \<and> cameraDistance (frames kss g) \<le> MAX_ZOOM"
proof (induction kss arbitrary: g)
  case Nil
  then show ?case by simp
next
  case (Cons ks kss)
  let ?g = "animate (g\<lparr>keys := ks\<rparr>)"
  have "MIN_ZOOM \<le> cameraDistance ?g \<and> cameraDistance ?g \<le> MAX_ZOOM"
    using zoom_step [of "g\<lparr>keys := ks\<rparr>"] Cons.prems
    by (simp add: cameraDistance_animate)
  then show ?case
    using Cons.IH [of ?g] by simp
qed

lemma initial_fields:
  "theta (spherical (alien initial)) = 0"
  "phi (spherical (alien initial)) = 0"
  "position (alien initial) = vec 0 ALIEN_DISTANCE 0"
  "cameraDistance initial = 200"
  "camera initial = \<lparr>cam_position = vec 0 0 0, cam_lookAt = None\<rparr>"
  "keys initial = Map.empty"
  by (simp_all add: initial_def)

lemma zoom_initial: "MIN_ZOOM \<le> cameraDistance initial \<and> cameraDistance initial \<le> MAX_ZOOM"
  by (simp add: initial_def MIN_ZOOM_def MAX_ZOOM_def)

lemma js_rem_small_negative:
  assumes "- b < a" and "a < 0" and "0 < b"
  shows "js_rem a b = a"
proof -
  have q: "a / b < 0" "- 1 < a / b"
    using assms by (simp_all add: field_simps)
  have "\<lceil>a / b\<rceil> = 0"
    by (rule ceiling_unique) (use q in simp_all)
  then show ?thesis
    using q by (simp add: js_rem_def js_trunc_def)
qed

section \<open>Positions, the camera and the state at the camera update\<close>

lemma vsub_center: "vsub v CENTER_AXIS = v"
  by (simp add: vsub_def CENTER_AXIS_def vec_eta)

lemma vadd_center: "vadd v CENTER_AXIS = v"
  by (simp add: vadd_def CENTER_AXIS_def vec_eta)

lemma ALIEN_DISTANCE_val: "ALIEN_DISTANCE = 1010"
  by (simp add: ALIEN_DISTANCE_def BLOCK_SIZE_def)

lemma position_handleInput:
  "position (alien (handleInput g)) =
     (if dTheta g \<noteq> 0 \<or> dPhi g \<noteq> 0
      then reprojection ALIEN_DISTANCE (spherical (alien (handleInput g)))
      else position (alien g))"
  by (simp add: alien_handleInput reprojection_def) (simp add: applyAngles_def Let_def)

lemma vlength_reprojection: "vlength (reprojection r s) = \<bar>r\<bar>"
  by (simp add: reprojection_def sphere_norm)

lemma position_updateAlien:
  "position (alien (updateAlien g)) =
     (if vlength (position (alien g)) = 0 then position (alien g)
      else setLength (position (alien g)) ALIEN_DISTANCE)"
  by (simp add: updateAlien_def)

lemma vlength_position_updateAlien:
  "vlength (position (alien g)) \<noteq> 0 \<Longrightarrow>
   vlength (position (alien (updateAlien g))) = ALIEN_DISTANCE"
  by (simp add: position_updateAlien vlength_setLength ALIEN_DISTANCE_val)

lemma updateAlien_on_sphere:
  "vlength (position (alien g)) = ALIEN_DISTANCE \<Longrightarrow> updateAlien g = g"
  by (simp add: updateAlien_def setLength_same ALIEN_DISTANCE_val)

lemma position_animate: "position (alien (animate g)) = position (alien (updateAlien (handleInput g)))"
  by (simp add: animate_def alien_updateCamera)

lemma no_keys_initial: "dTheta (initial\<lparr>alien := a\<rparr>) = 0" "dPhi (initial\<lparr>alien := a\<rparr>) = 0"
  by (simp_all add: dTheta_def dPhi_def pressed_def initial_fields)

lemma no_keys_initial': "dTheta initial = 0" "dPhi initial = 0"
  by (simp_all add: dTheta_def dPhi_def pressed_def initial_fields)

lemma vlength_axis: "0 \<le> r \<Longrightarrow> vlength (vec 0 r 0) = r" "0 \<le> r \<Longrightarrow> vlength (vec r 0 0) = r"
  by (simp_all add: vlength_vec)

lemma camera_updateCamera:
  "vlength (position (alien g)) \<noteq> 0 \<Longrightarrow>
   camera (updateCamera g) =
     \<lparr>cam_position = multiplyScalar (vnormalize (position (alien g)))
                        (ALIEN_DISTANCE + cameraDistance g),
      cam_lookAt = Some (position (alien g))\<rparr>"
  by (simp add: updateCamera_def Let_def)

lemma vnormalize_scale:
  "vlength v \<noteq> 0 \<Longrightarrow> multiplyScalar (vnormalize v) c = multiplyScalar v (c / vlength v)"
  by (simp add: vnormalize_def divideScalar_def multiplyScalar_def vec_eq_iff)

lemma cross_scaled: "cross v (multiplyScalar v k) = vec 0 0 0"
  by (simp add: cross_def multiplyScalar_def vec_eq_iff)

lemma spherical_handleInput_still:
  "dTheta g = 0 \<Longrightarrow> dPhi g = 0 \<Longrightarrow> alien (handleInput g) = alien g"
  by (simp add: alien_handleInput)

lemma vlength_position_handleInput:
  "vlength (position (alien g)) = ALIEN_DISTANCE \<Longrightarrow>
   vlength (position (alien (handleInput g))) = ALIEN_DISTANCE"
  by (simp add: position_handleInput vlength_reprojection ALIEN_DISTANCE_val)

lemma vlength_position_animate:
  "vlength (position (alien g)) = ALIEN_DISTANCE \<Longrightarrow>
   vlength (position (alien (animate g))) = ALIEN_DISTANCE"
  using vlength_position_handleInput [of g]
  by (simp add: position_animate updateAlien_on_sphere)

lemma vlength_position_frames:
  "vlength (position (alien g)) = ALIEN_DISTANCE \<Longrightarrow>
   vlength (position (alien (frames kss g))) = ALIEN_DISTANCE"
proof (induction kss arbitrary: g)
  case Nil
  then show ?case by simp
next
  case (Cons ks kss)
  have "vlength (position (alien (animate (g\<lparr>keys := ks\<rparr>)))) = ALIEN_DISTANCE"
    by (rule vlength_position_animate) (simp add: Cons.prems)
  from Cons.IH [OF this] show ?case by simp
qed

lemma vlength_position_initial: "vlength (position (alien initial)) = ALIEN_DISTANCE"
  by (simp add: initial_fields vlength_axis ALIEN_DISTANCE_val)

lemma vlength_camera:
  assumes "vlength (position (alien g)) \<noteq> 0" and "0 \<le> ALIEN_DISTANCE + cameraDistance g"
  shows "vlength (cam_position (camera (updateCamera g))) = ALIEN_DISTANCE + cameraDistance g"
  using assms by (simp add: camera_updateCamera vlength_multiplyScalar vlength_normalize)

lemma js_rem_zero: "js_rem 0 b = 0"
  by (simp add: js_rem_def js_trunc_def)

lemma angles_after_w:
  "theta (spherical (alien (handleInput (initial\<lparr>keys := holding ''w''\<rparr>)))) = 0.01"
  "phi (spherical (alien (handleInput (initial\<lparr>keys := holding ''w''\<rparr>)))) = 0"
  using pi_bounds(1)
  by (simp_all add: alien_handleInput dTheta_w dPhi_w theta_applyAngles phi_applyAngles
      initial_fields js_rem_zero)

lemma frame_before_camera:
  fixes kss ks
  defines "h \<equiv> (frames kss initial)\<lparr>keys := ks\<rparr>"
  shows "updateAlien (handleInput h) = handleInput h"
    and "vlength (position (alien (handleInput h))) = ALIEN_DISTANCE"
    and "MIN_ZOOM \<le> cameraDistance (handleInput h)"
    and "cameraDistance (handleInput h) \<le> MAX_ZOOM"
    and "frames (kss @ [ks]) initial = updateCamera (handleInput h)"
proof -
  have "vlength (position (alien h)) = ALIEN_DISTANCE"
    using vlength_position_frames [OF vlength_position_initial, of kss] by (simp add: h_def)
  then show l: "vlength (position (alien (handleInput h))) = ALIEN_DISTANCE"
    by (rule vlength_position_handleInput)
  then show u: "updateAlien (handleInput h) = handleInput h"
    by (rule updateAlien_on_sphere)
  have "MIN_ZOOM \<le> cameraDistance h \<and> cameraDistance h \<le> MAX_ZOOM"
    using zoom_frames [of initial kss] zoom_initial by (simp add: h_def)
  then show "MIN_ZOOM \<le> cameraDistance (handleInput h)"
    and "cameraDistance (handleInput h) \<le> MAX_ZOOM"
    using zoom_step [of h] by simp_all
  show "frames (kss @ [ks]) initial = updateCamera (handleInput h)"
    by (simp add: frames_snoc animate_def u h_def [symmetric])
qed

lemma updateCamera_pose:
  "position (alien g) \<noteq> CENTER_AXIS \<longrightarrow>
     cam_position (camera (updateCamera g))
       = vadd (multiplyScalar (vnormalize (vsub (position (alien g)) CENTER_AXIS))
                 (ALIEN_DISTANCE + cameraDistance g)) CENTER_AXIS
     \<and> cam_lookAt (camera (updateCamera g)) = Some (position (alien g))
     \<and> cross (vsub (position (alien g)) CENTER_AXIS)
             (vsub (cam_position (camera (updateCamera g))) CENTER_AXIS) = vec 0 0 0
     \<and> cam_position (camera (updateCamera g))
       = multiplyScalar (position (alien g))
           ((ALIEN_DISTANCE + cameraDistance g) / vlength (position (alien g)))
     \<and> (vlength (position (alien g)) \<le> ALIEN_DISTANCE + cameraDistance g \<longrightarrow>
          1 \<le> (ALIEN_DISTANCE + cameraDistance g) / vlength (position (alien g)))"
proof
  assume "position (alien g) \<noteq> CENTER_AXIS"
  then have nz: "vlength (position (alien g)) \<noteq> 0"
    by (simp add: vlength_zero_iff CENTER_AXIS_def)
  then have pos: "0 < vlength (position (alien g))"
    using vlength_nonneg [of "position (alien g)"] by simp
  have c: "cam_position (camera (updateCamera g))
      = multiplyScalar (vnormalize (position (alien g))) (ALIEN_DISTANCE + cameraDistance g)"
    and l: "cam_lookAt (camera (updateCamera g)) = Some (position (alien g))"
    by (simp_all add: camera_updateCamera [OF nz])
  have k: "cam_position (camera (updateCamera g))
      = multiplyScalar (position (alien g))
          ((ALIEN_DISTANCE + cameraDistance g) / vlength (position (alien g)))"
    by (simp only: c vnormalize_scale [OF nz])
  have x: "cross (vsub (position (alien g)) CENTER_AXIS)
             (vsub (cam_position (camera (updateCamera g))) CENTER_AXIS) = vec 0 0 0"
    by (simp only: vsub_center k cross_scaled)
  have o: "vlength (position (alien g)) \<le> ALIEN_DISTANCE + cameraDistance g \<longrightarrow>
          1 \<le> (ALIEN_DISTANCE + cameraDistance g) / vlength (position (alien g))"
    using pos by (simp add: field_simps)
  from c l k x o
  show "cam_position (camera (updateCamera g))
       = vadd (multiplyScalar (vnormalize (vsub (position (alien g)) CENTER_AXIS))
                 (ALIEN_DISTANCE + cameraDistance g)) CENTER_AXIS
     \<and> cam_lookAt (camera (updateCamera g)) = Some (position (alien g))
     \<and> cross (vsub (position (alien g)) CENTER_AXIS)
             (vsub (cam_position (camera (updateCamera g))) CENTER_AXIS) = vec 0 0 0
     \<and> cam_position (camera (updateCamera g))
       = multiplyScalar (position (alien g))
           ((ALIEN_DISTANCE + cameraDistance g) / vlength (position (alien g)))
     \<and> (vlength (position (alien g)) \<le> ALIEN_DISTANCE + cameraDistance g \<longrightarrow>
          1 \<le> (ALIEN_DISTANCE + cameraDistance g) / vlength (position (alien g)))"
    by (simp only: vsub_center vadd_center simp_thms)
qed

section \<open>Rounding to binary64\<close>

lemma rne_close: "\<bar>of_int (rne y) - y\<bar> \<le> 1 / 2"
proof -
  have "of_int \<lfloor>y\<rfloor> \<le> y" "y < of_int \<lfloor>y\<rfloor> + 1"
    by linarith+
  then show ?thesis
    by (auto simp add: rne_def Let_def)
qed

lemma rne_unique:
  assumes "\<bar>y - of_int m\<bar> < 1 / 2"
  shows "rne y = m"
proof -
  have a: "\<bar>of_int (rne y) - y\<bar> \<le> 1 / 2"
    by (rule rne_close)
  have "\<bar>(of_int (rne y) :: real) - of_int m\<bar> < 1"
    using a assms by linarith
  then have "\<bar>rne y - m\<bar> < 1"
    by (metis of_int_diff of_int_abs of_int_less_1_iff)
  then show ?thesis
    by linarith
qed

lemma ulp64_pos: "0 < ulp64 x"
  by (simp add: ulp64_def)

lemma ulp64_bounds:
  assumes "x \<noteq> 0"
  shows "2 ^ 52 * ulp64 x \<le> \<bar>x\<bar>" and "\<bar>x\<bar> < 2 ^ 53 * ulp64 x"
proof -
  let ?e = "\<lfloor>log 2 \<bar>x\<bar>\<rfloor>"
  have p: "0 < \<bar>x\<bar>"
    using assms by simp
  have "2 powr (of_int ?e) \<le> \<bar>x\<bar> \<and> \<bar>x\<bar> < 2 powr (of_int (?e + 1))"
    using floor_log_eq_powr_iff [of "\<bar>x\<bar>" 2 ?e] p by simp
  moreover have "2 powr (of_int ?e) = 2 ^ 52 * ulp64 x"
    by (simp add: ulp64_def powr_diff)
  moreover have "2 powr (of_int (?e + 1)) = 2 ^ 53 * ulp64 x"
    by (simp add: ulp64_def powr_diff powr_add)
  ultimately show "2 ^ 52 * ulp64 x \<le> \<bar>x\<bar>" and "\<bar>x\<bar> < 2 ^ 53 * ulp64 x"
    by simp_all
qed

lemma ulp64_eq:
  assumes "2 ^ 52 \<le> \<bar>x\<bar> * 2 ^ n" and "\<bar>x\<bar> * 2 ^ n < 2 ^ 53"
  shows "ulp64 x = 1 / 2 ^ n"
proof -
  have p: "0 < \<bar>x\<bar>"
  proof (rule ccontr)
    assume "\<not> 0 < \<bar>x\<bar>"
    then have "\<bar>x\<bar> * 2 ^ n = 0" by simp
    with assms(1) show False by simp
  qed
  let ?k = "52 - int n"
  have e1: "(2::real) powr (of_int ?k) = 2 ^ 52 / 2 ^ n"
    by (simp add: powr_diff powr_realpow)
  have e2: "(2::real) powr (of_int (?k + 1)) = 2 ^ 53 / 2 ^ n"
    by (simp add: powr_diff powr_add powr_realpow)
  have "2 ^ 52 / 2 ^ n \<le> \<bar>x\<bar>" "\<bar>x\<bar> < 2 ^ 53 / 2 ^ n"
    using assms by (simp_all add: field_simps)
  then have "\<lfloor>log 2 \<bar>x\<bar>\<rfloor> = ?k"
    using floor_log_eq_powr_iff [of "\<bar>x\<bar>" 2 ?k] p e1 e2 by simp
  then have "ulp64 x = 2 powr (of_int ?k - 52)"
    by (simp add: ulp64_def)
  also have "\<dots> = 1 / 2 ^ n"
    by (simp add: powr_minus powr_realpow inverse_eq_divide)
  finally show ?thesis .
qed

lemma fl64_eq_div:
  assumes "2 ^ 52 \<le> \<bar>x\<bar> * 2 ^ n" and "\<bar>x\<bar> * 2 ^ n < 2 ^ 53"
    and "\<bar>x * 2 ^ n - of_int m\<bar> < 1 / 2"
  shows "fl64 x = of_int m / 2 ^ n"
proof -
  have u: "ulp64 x = 1 / 2 ^ n"
    using assms(1,2) by (rule ulp64_eq)
  have nz: "x \<noteq> 0"
    using assms(1) by auto
  have "rne (x / ulp64 x) = m"
    by (rule rne_unique) (use assms(3) in \<open>simp add: u\<close>)
  then show ?thesis
    using nz by (simp add: fl64_def u)
qed

lemma fl64_zero [simp]: "fl64 0 = 0"
  by (simp add: fl64_def)

lemma fl64_err: "\<bar>fl64 x - x\<bar> \<le> \<bar>x\<bar> / 2 ^ 53"
proof (cases "x = 0")
  case True
  then show ?thesis by simp
next
  case False
  let ?u = "ulp64 x"
  have u: "0 < ?u" by (rule ulp64_pos)
  have "\<bar>of_int (rne (x / ?u)) - x / ?u\<bar> \<le> 1 / 2"
    by (rule rne_close)
  then have "\<bar>of_int (rne (x / ?u)) - x / ?u\<bar> * ?u \<le> 1 / 2 * ?u"
    using u by (simp only: mult_le_cancel_right_pos)
  moreover have "\<bar>of_int (rne (x / ?u)) - x / ?u\<bar> * ?u = \<bar>of_int (rne (x / ?u)) * ?u - x\<bar>"
  proof -
    have "\<bar>of_int (rne (x / ?u)) - x / ?u\<bar> * ?u = \<bar>(of_int (rne (x / ?u)) - x / ?u) * ?u\<bar>"
      using u by (simp add: abs_mult)
    also have "(of_int (rne (x / ?u)) - x / ?u) * ?u = of_int (rne (x / ?u)) * ?u - x"
      using u by (simp add: field_simps)
    finally show ?thesis .
  qed
  ultimately have "\<bar>fl64 x - x\<bar> \<le> ?u / 2"
    using False by (simp add: fl64_def)
  moreover have "?u / 2 \<le> \<bar>x\<bar> / 2 ^ 53"
    using ulp64_bounds(1) [OF False] by simp
  ultimately show ?thesis by linarith
qed

lemma fl64_eq_num:
  assumes "2 ^ 52 \<le> \<bar>x\<bar> * 2 ^ n" and "\<bar>x\<bar> * 2 ^ n < 2 ^ 53"
    and "\<bar>x * 2 ^ n - of_int m\<bar> < 1 / 2" and "r = of_int m / 2 ^ n"
  shows "fl64 x = r"
  using fl64_eq_div [OF assms(1,2,3)] assms(4) by simp

lemma fl64_sqrt_num:
  assumes "2 ^ 52 + 1 \<le> (of_int m :: real)" and "(of_int m :: real) + 1 \<le> 2 ^ 53"
    and "(of_int m - 1 / 2)\<^sup>2 < S * (2 ^ n)\<^sup>2" and "S * (2 ^ n)\<^sup>2 < (of_int m + 1 / 2)\<^sup>2"
    and "r = of_int m / 2 ^ n"
  shows "fl64 (sqrt S) = r"
proof -
  let ?t = "sqrt S * 2 ^ n"
  have t: "?t = sqrt (S * (2 ^ n)\<^sup>2)"
    by (simp add: real_sqrt_mult)
  have lo: "of_int m - 1 / 2 < ?t"
    unfolding t by (rule real_less_rsqrt) (rule assms(3))
  have hi: "?t < of_int m + 1 / 2"
    unfolding t by (rule real_less_lsqrt) (use assms(1,4) in simp_all)
  have p: "0 < ?t"
    using lo assms(1) by simp
  then have s: "0 < sqrt S"
    by (simp add: zero_less_mult_iff)
  show ?thesis
  proof (rule fl64_eq_num [where n = n and m = m])
    show "2 ^ 52 \<le> \<bar>sqrt S\<bar> * 2 ^ n"
      using lo assms(1) s by simp
    show "\<bar>sqrt S\<bar> * 2 ^ n < 2 ^ 53"
      using hi assms(2) s by simp
    show "\<bar>sqrt S * 2 ^ n - of_int m\<bar> < 1 / 2"
      using lo hi by linarith
    show "r = of_int m / 2 ^ n"
      by (rule assms(5))
  qed
qed

section \<open>The relative error of a chain of roundings\<close>

lemma fl64_abs_err: "\<bar>\<bar>fl64 x\<bar> - \<bar>x\<bar>\<bar> \<le> \<bar>x\<bar> / 2 ^ 53"
  using fl64_err [of x] by linarith

lemma near_fl64: "near 1 \<bar>fl64 x\<bar> \<bar>x\<bar>"
proof -
  have e: "\<bar>\<bar>fl64 x\<bar> - \<bar>x\<bar>\<bar> \<le> \<bar>x\<bar> / 2 ^ 53"
    by (rule fl64_abs_err)
  have d1: "(1 - 1 / 2 ^ 53) * \<bar>x\<bar> = \<bar>x\<bar> - \<bar>x\<bar> / 2 ^ 53"
    by (simp only: left_diff_distrib mult_1 times_divide_eq_left)
  have d2: "(1 + 1 / 2 ^ 53) * \<bar>x\<bar> = \<bar>x\<bar> + \<bar>x\<bar> / 2 ^ 53"
    by (simp only: distrib_right mult_1 times_divide_eq_left)
  have lo: "(1 - 1 / 2 ^ 53) * \<bar>x\<bar> \<le> \<bar>fl64 x\<bar>"
    unfolding d1 using e by linarith
  have hi: "\<bar>fl64 x\<bar> \<le> (1 + 1 / 2 ^ 53) * \<bar>x\<bar>"
    unfolding d2 using e by linarith
  have "(1 - 1 / 2 ^ 53) * \<bar>fl64 x\<bar> \<le> (1 - 1 / 2 ^ 53) * ((1 + 1 / 2 ^ 53) * \<bar>x\<bar>)"
    using hi by (intro mult_left_mono) simp_all
  also have "\<dots> = (1 - (1 / 2 ^ 53)\<^sup>2) * \<bar>x\<bar>"
    by (simp add: algebra_simps power2_eq_square)
  also have "\<dots> \<le> 1 * \<bar>x\<bar>"
    by (intro mult_right_mono) simp_all
  finally show ?thesis
    using lo by (simp add: near_def)
qed

lemma fl64_nonneg: "0 \<le> x \<Longrightarrow> 0 \<le> fl64 x"
proof -
  assume x: "0 \<le> x"
  have "\<bar>fl64 x - x\<bar> \<le> x / 2 ^ 53"
    using fl64_err [of x] x by simp
  moreover have "x / 2 ^ 53 \<le> x"
    using x by (simp add: field_simps)
  ultimately show ?thesis by linarith
qed

lemma near_fl64_nonneg: "0 \<le> x \<Longrightarrow> near 1 (fl64 x) x"
  using near_fl64 [of x] fl64_nonneg [of x] by simp

lemma fl64_pos: "0 < x \<Longrightarrow> 0 < fl64 x"
proof -
  assume x: "0 < x"
  have "\<bar>fl64 x - x\<bar> \<le> x / 2 ^ 53"
    using fl64_err [of x] x by simp
  moreover have "x / 2 ^ 53 < x"
    using x by (simp add: field_simps)
  ultimately show ?thesis by linarith
qed

lemma fl64_neg: "x < 0 \<Longrightarrow> fl64 x < 0"
proof -
  assume x: "x < 0"
  have "\<bar>fl64 x - x\<bar> \<le> - x / 2 ^ 53"
    using fl64_err [of x] x by simp
  moreover have "- x / 2 ^ 53 < - x"
    using x by (simp add: field_simps)
  ultimately show ?thesis by linarith
qed

lemma fl64_sgn: "sgn (fl64 x) = sgn x"
  using fl64_pos [of x] fl64_neg [of x] by (cases "x = 0"; cases "0 < x") (simp_all add: not_less)

lemma fl64_eq_0_iff: "fl64 x = 0 \<longleftrightarrow> x = 0"
  using fl64_sgn [of x] by (metis sgn_zero_iff)

lemma near_sym: "near k a b \<Longrightarrow> near k b a"
  by (simp add: near_def)

lemma near_refl: "0 \<le> a \<Longrightarrow> near k a a"
proof -
  assume a: "0 \<le> a"
  have "(1 - 1 / 2 ^ 53 :: real) ^ k \<le> 1"
    by (intro power_le_one) simp_all
  then have "(1 - 1 / 2 ^ 53) ^ k * a \<le> 1 * a"
    using a by (intro mult_right_mono) simp_all
  then show ?thesis by (simp add: near_def)
qed

lemma near_trans:
  assumes "near j a b" and "near k b c"
  shows "near (j + k) a c"
proof -
  let ?w = "1 - 1 / 2 ^ 53 :: real"
  have w: "0 \<le> ?w ^ j" "0 \<le> ?w ^ k" by simp_all
  have "?w ^ (j + k) * c = ?w ^ j * (?w ^ k * c)"
    by (simp add: power_add)
  also have "\<dots> \<le> ?w ^ j * b"
    using assms(2) w by (intro mult_left_mono) (simp_all add: near_def)
  also have "\<dots> \<le> a"
    using assms(1) by (simp add: near_def)
  finally have 1: "?w ^ (j + k) * c \<le> a" .
  have "?w ^ (j + k) * a = ?w ^ k * (?w ^ j * a)"
    by (simp add: power_add)
  also have "\<dots> \<le> ?w ^ k * b"
    using assms(1) w by (intro mult_left_mono) (simp_all add: near_def)
  also have "\<dots> \<le> c"
    using assms(2) by (simp add: near_def)
  finally have 2: "?w ^ (j + k) * a \<le> c" .
  from 1 2 show ?thesis by (simp add: near_def)
qed

lemma near_add: "near k a b \<Longrightarrow> near k a' b' \<Longrightarrow> near k (a + a') (b + b')"
  by (simp add: near_def distrib_left)

lemma near_weaken:
  assumes "near j a b" and "j \<le> k" and "0 \<le> a" and "0 \<le> b"
  shows "near k a b"
proof -
  let ?w = "1 - 1 / 2 ^ 53 :: real"
  have "?w ^ k \<le> ?w ^ j"
    using assms(2) by (intro power_decreasing) simp_all
  then have "?w ^ k * b \<le> ?w ^ j * b" "?w ^ k * a \<le> ?w ^ j * a"
    using assms(3,4) by (simp_all add: mult_right_mono)
  then show ?thesis
    using assms(1) by (simp add: near_def)
qed

lemma near_mult:
  assumes "near j a b" and "near k a' b'" and "0 \<le> a" and "0 \<le> b" and "0 \<le> a'" and "0 \<le> b'"
  shows "near (j + k) (a * a') (b * b')"
proof -
  let ?w = "1 - 1 / 2 ^ 53 :: real"
  have w: "0 \<le> ?w ^ j" "0 \<le> ?w ^ k" by simp_all
  have "?w ^ (j + k) * (b * b') = (?w ^ j * b) * (?w ^ k * b')"
    by (simp add: power_add)
  also have "\<dots> \<le> a * a'"
    using assms w by (intro mult_mono) (simp_all add: near_def)
  finally have 1: "?w ^ (j + k) * (b * b') \<le> a * a'" .
  have "?w ^ (j + k) * (a * a') = (?w ^ j * a) * (?w ^ k * a')"
    by (simp add: power_add)
  also have "\<dots> \<le> b * b'"
    using assms w by (intro mult_mono) (simp_all add: near_def)
  finally have 2: "?w ^ (j + k) * (a * a') \<le> b * b'" .
  from 1 2 show ?thesis by (simp add: near_def)
qed

lemma near_inverse:
  assumes "near k a b" and "0 < a" and "0 < b"
  shows "near k (1 / a) (1 / b)"
proof -
  let ?w = "(1 - 1 / 2 ^ 53 :: real) ^ k"
  have "?w * b \<le> a" "?w * a \<le> b"
    using assms(1) by (simp_all add: near_def)
  then have "?w * (1 / b) \<le> 1 / a" "?w * (1 / a) \<le> 1 / b"
    using assms(2,3) by (simp_all add: field_simps)
  then show ?thesis by (simp add: near_def)
qed

section \<open>The camera at the two binary64 states\<close>

lemma camera_updateCamera64:
  "length64 (position (alien g)) \<noteq> 0 \<Longrightarrow>
   camera (updateCamera64 g) =
     \<lparr>cam_position = multiplyScalar64 (normalize64 (position (alien g)))
                        (fl64 (ALIEN_DISTANCE + cameraDistance g)),
      cam_lookAt = Some (position (alien g))\<rparr>"
  by (simp add: updateCamera64_def Let_def)

lemma w64_1: "fl64 ((8883609753434135 / 2 ^ 43) * (8883609753434135 / 2 ^ 43)) = (8761716047279721 / 2 ^ 33)"
  by (rule fl64_eq_num [where n = 33 and m = "8761716047279721"]) simp_all

lemma w64_2: "fl64 (8761716047279721 / 2 ^ 33) = (8761716047279721 / 2 ^ 33)"
  by (rule fl64_eq_num [where n = 33 and m = "8761716047279721"]) simp_all

lemma w64_3: "fl64 ((5685699766786907 / 2 ^ 49) * (5685699766786907 / 2 ^ 49)) = (224314884986481 / 2 ^ 41)"
  by (rule fl64_eq_num [where n = 46 and m = "7178076319567392"]) simp_all

lemma w64_4: "fl64 ((8761716047279721 / 2 ^ 33) + (224314884986481 / 2 ^ 41)) = (8762592277299199 / 2 ^ 33)"
  by (rule fl64_eq_num [where n = 33 and m = "8762592277299199"]) simp_all

lemma w64_5: "fl64 (sqrt (8762592277299199 / 2 ^ 33)) = (8884053952430079 / 2 ^ 43)"
  by (rule fl64_sqrt_num [where n = 43 and m = "8884053952430079"]) (simp_all add: power2_eq_square)

lemma w64_6: "fl64 (1 / (8884053952430079 / 2 ^ 43)) = (1141506440204799 / 2 ^ 60)"
  by (rule fl64_eq_num [where n = 62 and m = "4566025760819196"]) simp_all

lemma w64_7: "fl64 ((8883609753434135 / 2 ^ 43) * (1141506440204799 / 2 ^ 60)) = (4503374449265621 / 2 ^ 52)"
  by (rule fl64_eq_num [where n = 53 and m = "9006748898531242"]) simp_all

lemma w64_8: "fl64 ((5685699766786907 / 2 ^ 49) * (1141506440204799 / 2 ^ 60)) = (5764511446722567 / 2 ^ 59)"
  by (rule fl64_eq_num [where n = 59 and m = "5764511446722567"]) simp_all

lemma w64_9: "fl64 (1210) = 1210"
  by (rule fl64_eq_num [where n = 42 and m = "5321636278435840"]) simp_all

lemma w64_10: "fl64 ((4503374449265621 / 2 ^ 52) * 1210) = (5321370198839259 / 2 ^ 42)"
  by (rule fl64_eq_num [where n = 42 and m = "5321370198839259"]) simp_all

lemma w64_11: "fl64 ((5764511446722567 / 2 ^ 59) * 1210) = (1702895227181227 / 2 ^ 47)"
  by (rule fl64_eq_num [where n = 49 and m = "6811580908724908"]) simp_all

lemma w64_position: "position (alien afterW) = vec 0 (8883609753434135 / 2 ^ 43) (5685699766786907 / 2 ^ 49)"
  by (simp add: afterW_def)

lemma w64_cameraDistance: "cameraDistance afterW = 200"
  by (simp add: afterW_def initial_fields)

lemma w64_length: "length64 (vec 0 (8883609753434135 / 2 ^ 43) (5685699766786907 / 2 ^ 49)) = (8884053952430079 / 2 ^ 43)"
  by (simp only: length64_def vec_sel mult_zero_left mult_zero_right add_0_left add_0_right fl64_zero w64_1 w64_2 w64_3 w64_4 w64_5)

lemma w64_length_nonzero: "(8884053952430079 / 2 ^ 43) \<noteq> (0::real)"
  by simp

lemma w64_normalize: "normalize64 (vec 0 (8883609753434135 / 2 ^ 43) (5685699766786907 / 2 ^ 49)) = vec 0 (4503374449265621 / 2 ^ 52) (5764511446722567 / 2 ^ 59)"
  by (simp only: normalize64_def divideScalar64_def multiplyScalar64_def w64_length
      w64_length_nonzero if_False vec_sel mult_zero_left mult_zero_right add_0_left add_0_right fl64_zero w64_6 w64_7 w64_8)

lemma w64_distance: "fl64 (ALIEN_DISTANCE + cameraDistance afterW) = 1210"
  by (simp add: ALIEN_DISTANCE_val w64_cameraDistance w64_9)

lemma w64_camera:
  "cam_position (camera (updateCamera64 afterW)) = vec 0 (5321370198839259 / 2 ^ 42) (1702895227181227 / 2 ^ 47)"
proof -
  have nz: "length64 (position (alien afterW)) \<noteq> 0"
    unfolding w64_position w64_length by (rule w64_length_nonzero)
  have "cam_position (camera (updateCamera64 afterW))
      = multiplyScalar64 (normalize64 (position (alien afterW)))
          (fl64 (ALIEN_DISTANCE + cameraDistance afterW))"
    by (simp add: camera_updateCamera64 [OF nz])
  also have "\<dots> = multiplyScalar64 (vec 0 (4503374449265621 / 2 ^ 52) (5764511446722567 / 2 ^ 59)) 1210"
    by (simp only: w64_position w64_normalize w64_distance)
  also have "\<dots> = vec 0 (5321370198839259 / 2 ^ 42) (1702895227181227 / 2 ^ 47)"
    by (simp only: multiplyScalar64_def vec_sel mult_zero_left mult_zero_right add_0_left add_0_right fl64_zero w64_10 w64_11)
  finally show ?thesis .
qed

lemma ass64_1: "fl64 ((- (4546437485717569 / 2 ^ 52)) * (- (4546437485717569 / 2 ^ 52))) = (4589682814146265 / 2 ^ 52)"
  by (rule fl64_eq_num [where n = 52 and m = "4589682814146265"]) simp_all

lemma ass64_2: "fl64 ((4436475599176235 / 2 ^ 42) * (4436475599176235 / 2 ^ 42)) = (546294002870155 / 2 ^ 29)"
  by (rule fl64_eq_num [where n = 33 and m = "8740704045922480"]) simp_all

lemma ass64_3: "fl64 ((4589682814146265 / 2 ^ 52) + (546294002870155 / 2 ^ 29)) = (8740712800047721 / 2 ^ 33)"
  by (rule fl64_eq_num [where n = 33 and m = "8740712800047721"]) simp_all

lemma ass64_4: "fl64 ((7102861371698563 / 2 ^ 47) * (7102861371698563 / 2 ^ 47)) = (5601146176378035 / 2 ^ 41)"
  by (rule fl64_eq_num [where n = 41 and m = "5601146176378035"]) simp_all

lemma ass64_5: "fl64 ((8740712800047721 / 2 ^ 33) + (5601146176378035 / 2 ^ 41)) = (4381296138649599 / 2 ^ 32)"
  by (rule fl64_eq_num [where n = 33 and m = "8762592277299198"]) simp_all

lemma ass64_6: "fl64 (sqrt (4381296138649599 / 2 ^ 32)) = (8884053952430079 / 2 ^ 43)"
  by (rule fl64_sqrt_num [where n = 43 and m = "8884053952430079"]) (simp_all add: power2_eq_square)

lemma ass64_7: "fl64 (1 / (8884053952430079 / 2 ^ 43)) = (1141506440204799 / 2 ^ 60)"
  by (rule fl64_eq_num [where n = 62 and m = "4566025760819196"]) simp_all

lemma ass64_8: "fl64 ((- (4546437485717569 / 2 ^ 52)) * (1141506440204799 / 2 ^ 60)) = (- (4609457411262169 / 2 ^ 62))"
  by (rule fl64_eq_num [where n = 62 and m = "-4609457411262169"]) simp_all

lemma ass64_9: "fl64 ((4436475599176235 / 2 ^ 42) * (1141506440204799 / 2 ^ 60)) = (4497971300550955 / 2 ^ 52)"
  by (rule fl64_eq_num [where n = 53 and m = "8995942601101910"]) simp_all

lemma ass64_10: "fl64 ((7102861371698563 / 2 ^ 47) * (1141506440204799 / 2 ^ 60)) = (7201316875860721 / 2 ^ 57)"
  by (rule fl64_eq_num [where n = 57 and m = "7201316875860721"]) simp_all

lemma ass64_11: "fl64 (1210) = 1210"
  by (rule fl64_eq_num [where n = 42 and m = "5321636278435840"]) simp_all

lemma ass64_12: "fl64 ((- (4609457411262169 / 2 ^ 62)) * 1210) = (- (5446722136354711 / 2 ^ 52))"
  by (rule fl64_eq_num [where n = 52 and m = "-5446722136354711"]) simp_all

lemma ass64_13: "fl64 ((4497971300550955 / 2 ^ 52) * 1210) = (5314985618815093 / 2 ^ 42)"
  by (rule fl64_eq_num [where n = 42 and m = "5314985618815093"]) simp_all

lemma ass64_14: "fl64 ((7201316875860721 / 2 ^ 57) * 1210) = (4254684287007555 / 2 ^ 46)"
  by (rule fl64_eq_num [where n = 47 and m = "8509368574015110"]) simp_all

lemma ass64_position: "position (alien afterASS) = vec (- (4546437485717569 / 2 ^ 52)) (4436475599176235 / 2 ^ 42) (7102861371698563 / 2 ^ 47)"
  by (simp add: afterASS_def)

lemma ass64_cameraDistance: "cameraDistance afterASS = 200"
  by (simp add: afterASS_def initial_fields)

lemma ass64_length: "length64 (vec (- (4546437485717569 / 2 ^ 52)) (4436475599176235 / 2 ^ 42) (7102861371698563 / 2 ^ 47)) = (8884053952430079 / 2 ^ 43)"
  by (simp only: length64_def vec_sel mult_zero_left mult_zero_right add_0_left add_0_right fl64_zero ass64_1 ass64_2 ass64_3 ass64_4 ass64_5 ass64_6)

lemma ass64_length_nonzero: "(8884053952430079 / 2 ^ 43) \<noteq> (0::real)"
  by simp

lemma ass64_normalize: "normalize64 (vec (- (4546437485717569 / 2 ^ 52)) (4436475599176235 / 2 ^ 42) (7102861371698563 / 2 ^ 47)) = vec (- (4609457411262169 / 2 ^ 62)) (4497971300550955 / 2 ^ 52) (7201316875860721 / 2 ^ 57)"
  by (simp only: normalize64_def divideScalar64_def multiplyScalar64_def ass64_length
      ass64_length_nonzero if_False vec_sel mult_zero_left mult_zero_right add_0_left add_0_right fl64_zero ass64_7 ass64_8 ass64_9 ass64_10)

lemma ass64_distance: "fl64 (ALIEN_DISTANCE + cameraDistance afterASS) = 1210"
  by (simp add: ALIEN_DISTANCE_val ass64_cameraDistance ass64_11)

lemma ass64_camera:
  "cam_position (camera (updateCamera64 afterASS)) = vec (- (5446722136354711 / 2 ^ 52)) (5314985618815093 / 2 ^ 42) (4254684287007555 / 2 ^ 46)"
proof -
  have nz: "length64 (position (alien afterASS)) \<noteq> 0"
    unfolding ass64_position ass64_length by (rule ass64_length_nonzero)
  have "cam_position (camera (updateCamera64 afterASS))
      = multiplyScalar64 (normalize64 (position (alien afterASS)))
          (fl64 (ALIEN_DISTANCE + cameraDistance afterASS))"
    by (simp add: camera_updateCamera64 [OF nz])
  also have "\<dots> = multiplyScalar64 (vec (- (4609457411262169 / 2 ^ 62)) (4497971300550955 / 2 ^ 52) (7201316875860721 / 2 ^ 57)) 1210"
    by (simp only: ass64_position ass64_normalize ass64_distance)
  also have "\<dots> = vec (- (5446722136354711 / 2 ^ 52)) (5314985618815093 / 2 ^ 42) (4254684287007555 / 2 ^ 46)"
    by (simp only: multiplyScalar64_def vec_sel mult_zero_left mult_zero_right add_0_left add_0_right fl64_zero ass64_12 ass64_13 ass64_14)
  finally show ?thesis .
qed

lemma ass64_15: "fl64 ((- (5446722136354711 / 2 ^ 52)) * (- (5446722136354711 / 2 ^ 52))) = (1646837223848531 / 2 ^ 50)"
  by (rule fl64_eq_num [where n = 52 and m = "6587348895394124"]) simp_all

lemma ass64_16: "fl64 ((5314985618815093 / 2 ^ 42) * (5314985618815093 / 2 ^ 42)) = (3136277030103691 / 2 ^ 31)"
  by (rule fl64_eq_num [where n = 32 and m = "6272554060207382"]) simp_all

lemma ass64_17: "fl64 ((1646837223848531 / 2 ^ 50) + (3136277030103691 / 2 ^ 31)) = (6272560342392837 / 2 ^ 32)"
  by (rule fl64_eq_num [where n = 32 and m = "6272560342392837"]) simp_all

lemma ass64_18: "fl64 ((4254684287007555 / 2 ^ 46) * (4254684287007555 / 2 ^ 46)) = (8039053148549241 / 2 ^ 41)"
  by (rule fl64_eq_num [where n = 41 and m = "8039053148549241"]) simp_all

lemma ass64_19: "fl64 ((6272560342392837 / 2 ^ 32) + (8039053148549241 / 2 ^ 41)) = (6288261618073597 / 2 ^ 32)"
  by (rule fl64_eq_num [where n = 32 and m = "6288261618073597"]) simp_all

lemma ass64_20: "fl64 (sqrt (6288261618073597 / 2 ^ 32)) = (5321636278435839 / 2 ^ 42)"
  by (rule fl64_sqrt_num [where n = 42 and m = "5321636278435839"]) (simp_all add: power2_eq_square)

lemma ass64_camera_length: "length64 (vec (- (5446722136354711 / 2 ^ 52)) (5314985618815093 / 2 ^ 42) (4254684287007555 / 2 ^ 46)) = (5321636278435839 / 2 ^ 42)"
  by (simp only: length64_def vec_sel mult_zero_left mult_zero_right add_0_left add_0_right fl64_zero ass64_15 ass64_16 ass64_17 ass64_18 ass64_19 ass64_20)

lemma w64_cross_1: "fl64 ((8883609753434135 / 2 ^ 43) * (1702895227181227 / 2 ^ 47)) = (6718117906096481 / 2 ^ 39)"
  by (rule fl64_eq_num [where n = 39 and m = "6718117906096481"]) simp_all

lemma w64_cross_2: "fl64 ((5685699766786907 / 2 ^ 49) * (5321370198839259 / 2 ^ 42)) = (3359058953048241 / 2 ^ 38)"
  by (rule fl64_eq_num [where n = 39 and m = "6718117906096482"]) simp_all

lemma w64_cross_3: "fl64 ((6718117906096481 / 2 ^ 39) - (3359058953048241 / 2 ^ 38)) = (- (1 / 2 ^ 39))"
  by (rule fl64_eq_num [where n = 91 and m = "-4503599627370496"]) simp_all

lemma w64_cross: "cross64 (vec 0 (8883609753434135 / 2 ^ 43) (5685699766786907 / 2 ^ 49)) (vec 0 (5321370198839259 / 2 ^ 42) (1702895227181227 / 2 ^ 47)) = vec (- (1 / 2 ^ 39)) 0 0"
  by (simp only: cross64_def vec_sel mult_zero_left mult_zero_right fl64_zero diff_self w64_cross_1 w64_cross_2 w64_cross_3)

section \<open>Lengths and cross products in binary64\<close>

lemma vlength_lengthSq: "vlength v = sqrt (lengthSq v)"
  by (simp add: vlength_def lengthSq_def)

lemma lengthSq_nonneg: "0 \<le> lengthSq v"
  by (simp add: lengthSq_def)

lemma lengthSq_vec: "lengthSq (vec x y z) = x * x + y * y + z * z"
  by (simp add: lengthSq_def)

lemma near_trans':
  "near j a b \<Longrightarrow> near k b c \<Longrightarrow> j + k = n \<Longrightarrow> near n a c"
  using near_trans by blast

lemma near_mult':
  "near j a b \<Longrightarrow> near k a' b' \<Longrightarrow> 0 \<le> a \<Longrightarrow> 0 \<le> b \<Longrightarrow> 0 \<le> a' \<Longrightarrow> 0 \<le> b'
   \<Longrightarrow> j + k = n \<Longrightarrow> near n (a * a') (b * b')"
  using near_mult by blast

lemma near_square_fl64: "near 2 (fl64 x * fl64 x) (x * x)"
proof -
  have "near 2 (\<bar>fl64 x\<bar> * \<bar>fl64 x\<bar>) (\<bar>x\<bar> * \<bar>x\<bar>)"
    by (rule near_mult' [OF near_fl64 near_fl64]) simp_all
  then show ?thesis
    by (simp only: abs_mult_self_eq)
qed

lemma length64_near:
  "0 \<le> length64 v \<and> near 5 (length64 v * length64 v) (lengthSq v)"
proof -
  let ?qx = "fl64 (vx v * vx v)" and ?qy = "fl64 (vy v * vy v)" and ?qz = "fl64 (vz v * vz v)"
  let ?s1 = "fl64 (?qx + ?qy)"
  let ?s2 = "fl64 (?s1 + ?qz)"
  have qx: "near 1 ?qx (vx v * vx v)" and qxp: "0 \<le> ?qx"
    by (rule near_fl64_nonneg, simp) (rule fl64_nonneg, simp)
  have qy: "near 1 ?qy (vy v * vy v)" and qyp: "0 \<le> ?qy"
    by (rule near_fl64_nonneg, simp) (rule fl64_nonneg, simp)
  have qz: "near 1 ?qz (vz v * vz v)" and qzp: "0 \<le> ?qz"
    by (rule near_fl64_nonneg, simp) (rule fl64_nonneg, simp)
  have s1p: "0 \<le> ?s1"
    by (rule fl64_nonneg) (use qxp qyp in simp)
  have a1: "near 1 ?s1 (?qx + ?qy)"
    by (rule near_fl64_nonneg) (use qxp qyp in simp)
  have a2: "near 1 (?qx + ?qy) (vx v * vx v + vy v * vy v)"
    using qx qy by (rule near_add)
  have s1: "near 2 ?s1 (vx v * vx v + vy v * vy v)"
    by (rule near_trans' [OF a1 a2]) simp
  have qz2: "near 2 ?qz (vz v * vz v)"
    by (rule near_weaken [OF qz]) (use qzp in simp_all)
  have t: "near 2 (?s1 + ?qz) (lengthSq v)"
    unfolding lengthSq_def using s1 qz2 by (rule near_add)
  have s2p: "0 \<le> ?s2"
    by (rule fl64_nonneg) (use s1p qzp in simp)
  have a3: "near 1 ?s2 (?s1 + ?qz)"
    by (rule near_fl64_nonneg) (use s1p qzp in simp)
  have s2: "near 3 ?s2 (lengthSq v)"
    by (rule near_trans' [OF a3 t]) simp
  have L: "length64 v = fl64 (sqrt ?s2)"
    by (simp only: length64_def)
  have Lp: "0 \<le> length64 v"
    unfolding L by (rule fl64_nonneg) (use s2p in simp)
  have "near 2 (length64 v * length64 v) (sqrt ?s2 * sqrt ?s2)"
    unfolding L by (rule near_square_fl64)
  moreover have "sqrt ?s2 * sqrt ?s2 = ?s2"
    using s2p by simp
  ultimately have a4: "near 2 (length64 v * length64 v) ?s2"
    by simp
  have "near 5 (length64 v * length64 v) (lengthSq v)"
    by (rule near_trans' [OF a4 s2]) simp
  with Lp show ?thesis by simp
qed

lemma length64_pos:
  assumes "length64 v \<noteq> 0"
  shows "0 < length64 v" and "0 < lengthSq v"
proof -
  show p: "0 < length64 v"
    using assms length64_near [of v] by simp
  have "(1 - 1 / 2 ^ 53) ^ 5 * (length64 v * length64 v) \<le> lengthSq v"
    using length64_near [of v] by (simp add: near_def)
  moreover have "0 < (1 - 1 / 2 ^ 53 :: real) ^ 5 * (length64 v * length64 v)"
    using p by simp
  ultimately show "0 < lengthSq v"
    by linarith
qed

lemma length64_nonzero:
  assumes "0 < lengthSq v"
  shows "length64 v \<noteq> 0"
proof
  assume "length64 v = 0"
  then have "(1 - 1 / 2 ^ 53) ^ 5 * lengthSq v \<le> 0"
    using length64_near [of v] by (simp add: near_def)
  then show False
    using assms by (simp add: mult_le_0_iff)
qed

lemma normalize64_eq:
  "length64 v \<noteq> 0 \<Longrightarrow> normalize64 v = multiplyScalar64 v (fl64 (1 / length64 v))"
  by (simp add: normalize64_def divideScalar64_def)

lemma scaled64_components:
  assumes "length64 v \<noteq> 0"
  shows "vx (multiplyScalar64 (normalize64 v) c) = fl64 (fl64 (vx v * fl64 (1 / length64 v)) * c)"
    and "vy (multiplyScalar64 (normalize64 v) c) = fl64 (fl64 (vy v * fl64 (1 / length64 v)) * c)"
    and "vz (multiplyScalar64 (normalize64 v) c) = fl64 (fl64 (vz v * fl64 (1 / length64 v)) * c)"
  by (simp_all add: normalize64_eq [OF assms] multiplyScalar64_def)

lemma near_abs_twice:
  "near 2 \<bar>fl64 (fl64 (a * i) * c)\<bar> (\<bar>a\<bar> * (\<bar>i\<bar> * \<bar>c\<bar>))"
proof -
  have 1: "near 1 \<bar>fl64 (fl64 (a * i) * c)\<bar> \<bar>fl64 (a * i) * c\<bar>"
    by (rule near_fl64)
  have 2: "near 1 \<bar>fl64 (a * i)\<bar> \<bar>a * i\<bar>"
    by (rule near_fl64)
  have 3: "near 0 \<bar>c\<bar> \<bar>c\<bar>"
    by (rule near_refl) simp
  have 4: "near 1 (\<bar>fl64 (a * i)\<bar> * \<bar>c\<bar>) (\<bar>a * i\<bar> * \<bar>c\<bar>)"
    by (rule near_mult' [OF 2 3]) simp_all
  have 5: "near 2 \<bar>fl64 (fl64 (a * i) * c)\<bar> (\<bar>a * i\<bar> * \<bar>c\<bar>)"
    using near_trans' [OF 1 _ ] 4 by (simp add: abs_mult)
  then show ?thesis
    by (simp add: abs_mult mult.assoc)
qed

lemma near_square_twice:
  "near 4 (fl64 (fl64 (a * i) * c) * fl64 (fl64 (a * i) * c)) (a * a * (i * i * (c * c)))"
proof -
  let ?w = "\<bar>fl64 (fl64 (a * i) * c)\<bar>" and ?m = "\<bar>a\<bar> * (\<bar>i\<bar> * \<bar>c\<bar>)"
  have "near 4 (?w * ?w) (?m * ?m)"
    by (rule near_mult' [OF near_abs_twice near_abs_twice]) simp_all
  moreover have "?w * ?w = fl64 (fl64 (a * i) * c) * fl64 (fl64 (a * i) * c)"
    by simp
  moreover have "?m * ?m = a * a * (i * i * (c * c))"
  proof -
    have "?m * ?m = (\<bar>a\<bar> * \<bar>a\<bar>) * ((\<bar>i\<bar> * \<bar>i\<bar>) * (\<bar>c\<bar> * \<bar>c\<bar>))"
      by (simp only: mult_ac)
    then show ?thesis by (simp only: abs_mult_self_eq)
  qed
  ultimately show ?thesis by simp
qed

lemma scaled64_lengthSq:
  assumes nz: "length64 v \<noteq> 0"
  shows "near 11 (lengthSq (multiplyScalar64 (normalize64 v) c)) (c * c)"
proof -
  let ?L = "length64 v" and ?N = "lengthSq v"
  let ?I = "fl64 (1 / ?L)"
  let ?w = "multiplyScalar64 (normalize64 v) c"
  have Lp: "0 < ?L" and Np: "0 < ?N"
    using length64_pos [OF nz] by simp_all
  have LN: "near 5 (?L * ?L) ?N"
    using length64_near [of v] by simp
  have "near 5 (1 / (?L * ?L)) (1 / ?N)"
    by (rule near_inverse [OF LN]) (use Lp Np in simp_all)
  moreover have "near 2 (?I * ?I) (1 / ?L * (1 / ?L))"
    by (rule near_square_fl64)
  ultimately have II: "near 7 (?I * ?I) (1 / ?N)"
    using near_trans' [of 2 "?I * ?I" "1 / (?L * ?L)" 5 "1 / ?N" 7] by simp
  have "near 7 (?N * (?I * ?I)) (?N * (1 / ?N))"
    by (rule near_mult' [OF near_refl [of ?N 0] II]) (use Np in simp_all)
  then have NI: "near 7 (?N * (?I * ?I)) 1"
    using Np by simp
  have "near 7 (?N * (?I * ?I) * (c * c)) (1 * (c * c))"
    by (rule near_mult' [OF NI near_refl [of "c * c" 0]]) (use Np in simp_all)
  then have base: "near 7 (?N * (?I * ?I) * (c * c)) (c * c)"
    by simp
  have sq: "lengthSq ?w
      = fl64 (fl64 (vx v * ?I) * c) * fl64 (fl64 (vx v * ?I) * c)
      + fl64 (fl64 (vy v * ?I) * c) * fl64 (fl64 (vy v * ?I) * c)
      + fl64 (fl64 (vz v * ?I) * c) * fl64 (fl64 (vz v * ?I) * c)"
    by (simp only: lengthSq_def scaled64_components [OF nz])
  have "near 4 (lengthSq ?w)
      (vx v * vx v * (?I * ?I * (c * c)) + vy v * vy v * (?I * ?I * (c * c))
       + vz v * vz v * (?I * ?I * (c * c)))"
    unfolding sq by (intro near_add near_square_twice)
  moreover have "vx v * vx v * (?I * ?I * (c * c)) + vy v * vy v * (?I * ?I * (c * c))
       + vz v * vz v * (?I * ?I * (c * c)) = ?N * (?I * ?I) * (c * c)"
    by (simp only: lengthSq_def algebra_simps)
  ultimately have "near 4 (lengthSq ?w) (?N * (?I * ?I) * (c * c))"
    by simp
  from near_trans' [OF this base] show ?thesis by simp
qed

lemma tolerance_13: "(1 - 1 / 2 ^ 50 :: real)\<^sup>2 \<le> (1 - 1 / 2 ^ 53) ^ 13"
proof -
  have "(1 - 1 / 2 ^ 50 :: real)\<^sup>2 \<le> 1 + real 13 * (- (1 / 2 ^ 53))"
    by (simp add: power2_eq_square)
  also have "\<dots> \<le> (1 + (- (1 / 2 ^ 53))) ^ 13"
    by (rule Bernoulli_inequality) simp
  finally show ?thesis by simp
qed

lemma near_sqrt:
  assumes n: "near k S (c * c)" and k: "k \<le> 13" and c: "0 \<le> c" and S: "0 \<le> S"
  shows "(1 - 1 / 2 ^ 50) * c \<le> sqrt S" and "(1 - 1 / 2 ^ 50) * sqrt S \<le> c"
proof -
  let ?t = "1 - 1 / 2 ^ 50 :: real"
  have n13: "near 13 S (c * c)"
    by (rule near_weaken [OF n k S]) simp
  have "(?t * c)\<^sup>2 = ?t\<^sup>2 * (c * c)"
    by (simp add: power2_eq_square)
  also have "\<dots> \<le> (1 - 1 / 2 ^ 53) ^ 13 * (c * c)"
    by (rule mult_right_mono [OF tolerance_13]) simp
  also have "\<dots> \<le> S"
    using n13 by (simp add: near_def)
  finally show "?t * c \<le> sqrt S"
    by (rule real_le_rsqrt)
  have "(?t * sqrt S)\<^sup>2 = ?t\<^sup>2 * S"
    by (simp only: power_mult_distrib real_sqrt_pow2 [OF S])
  also have "\<dots> \<le> (1 - 1 / 2 ^ 53) ^ 13 * S"
    by (rule mult_right_mono [OF tolerance_13]) (rule S)
  also have "\<dots> \<le> c * c"
    using n13 by (simp add: near_def)
  finally have "(?t * sqrt S)\<^sup>2 \<le> c\<^sup>2"
    by (simp add: power2_eq_square)
  then show "?t * sqrt S \<le> c"
    using c by (rule power2_le_imp_le)
qed

lemma near_diff:
  assumes n: "near 4 a b" and a: "0 \<le> a" and b: "0 \<le> b"
  shows "\<bar>a - b\<bar> \<le> max a b / 2 ^ 51"
proof -
  have "1 + real 4 * (- (1 / 2 ^ 53)) \<le> (1 + (- (1 / 2 ^ 53)) :: real) ^ 4"
    by (rule Bernoulli_inequality) simp
  then have w: "1 - 1 / 2 ^ 51 \<le> (1 - 1 / 2 ^ 53 :: real) ^ 4"
    by simp
  have "(1 - 1 / 2 ^ 51) * b \<le> (1 - 1 / 2 ^ 53) ^ 4 * b"
    by (rule mult_right_mono [OF w b])
  also have "\<dots> \<le> a"
    using n by (simp add: near_def)
  finally have 1: "b - a \<le> b / 2 ^ 51"
    by (simp add: left_diff_distrib)
  have "(1 - 1 / 2 ^ 51) * a \<le> (1 - 1 / 2 ^ 53) ^ 4 * a"
    by (rule mult_right_mono [OF w a])
  also have "\<dots> \<le> b"
    using n by (simp add: near_def)
  finally have 2: "a - b \<le> a / 2 ^ 51"
    by (simp add: left_diff_distrib)
  have "a / 2 ^ 51 \<le> max a b / 2 ^ 51" "b / 2 ^ 51 \<le> max a b / 2 ^ 51"
    by (simp_all add: divide_right_mono)
  with 1 2 show ?thesis
    by linarith
qed

lemma abs_diff_same_sign:
  fixes x y :: real
  assumes "sgn x = sgn y"
  shows "\<bar>x - y\<bar> = \<bar>\<bar>x\<bar> - \<bar>y\<bar>\<bar>"
  using assms by (auto simp add: sgn_if split: if_splits)

lemma cross_component64:
  fixes a b i c :: real
  shows "\<bar>a * fl64 (fl64 (b * i) * c) - b * fl64 (fl64 (a * i) * c)\<bar>
      \<le> max \<bar>a * fl64 (fl64 (b * i) * c)\<bar> \<bar>b * fl64 (fl64 (a * i) * c)\<bar> / 2 ^ 51"
proof -
  let ?wa = "fl64 (fl64 (a * i) * c)" and ?wb = "fl64 (fl64 (b * i) * c)"
  let ?X = "a * ?wb" and ?Y = "b * ?wa"
  have sa: "sgn ?wa = sgn a * sgn i * sgn c" and sb: "sgn ?wb = sgn b * sgn i * sgn c"
    by (simp_all only: fl64_sgn sgn_mult)
  have s: "sgn ?X = sgn ?Y"
    by (simp only: sgn_mult sa sb) (simp only: mult_ac)
  have x: "near 2 \<bar>?X\<bar> (\<bar>a\<bar> * \<bar>b\<bar> * (\<bar>i\<bar> * \<bar>c\<bar>))"
  proof -
    have "near 2 (\<bar>a\<bar> * \<bar>?wb\<bar>) (\<bar>a\<bar> * (\<bar>b\<bar> * (\<bar>i\<bar> * \<bar>c\<bar>)))"
      by (rule near_mult' [OF near_refl [of "\<bar>a\<bar>" 0] near_abs_twice]) simp_all
    then show ?thesis by (simp add: abs_mult mult.assoc)
  qed
  have y: "near 2 \<bar>?Y\<bar> (\<bar>a\<bar> * \<bar>b\<bar> * (\<bar>i\<bar> * \<bar>c\<bar>))"
  proof -
    have "near 2 (\<bar>b\<bar> * \<bar>?wa\<bar>) (\<bar>b\<bar> * (\<bar>a\<bar> * (\<bar>i\<bar> * \<bar>c\<bar>)))"
      by (rule near_mult' [OF near_refl [of "\<bar>b\<bar>" 0] near_abs_twice]) simp_all
    then show ?thesis by (simp add: abs_mult mult_ac)
  qed
  have "near 4 \<bar>?X\<bar> \<bar>?Y\<bar>"
    by (rule near_trans' [OF x near_sym [OF y]]) simp
  then have "\<bar>\<bar>?X\<bar> - \<bar>?Y\<bar>\<bar> \<le> max \<bar>?X\<bar> \<bar>?Y\<bar> / 2 ^ 51"
    by (rule near_diff) simp_all
  then show ?thesis
    by (simp only: abs_diff_same_sign [OF s])
qed

lemma updateCamera64_pose:
  assumes nz: "length64 (position (alien g)) \<noteq> 0"
  shows "cam_position (camera (updateCamera64 g))
       = vadd (multiplyScalar64 (normalize64 (vsub (position (alien g)) CENTER_AXIS))
                 (fl64 (ALIEN_DISTANCE + cameraDistance g))) CENTER_AXIS
     \<and> cam_lookAt (camera (updateCamera64 g)) = Some (position (alien g))
     \<and> \<bar>vx (cross (vsub (position (alien g)) CENTER_AXIS)
                (vsub (cam_position (camera (updateCamera64 g))) CENTER_AXIS))\<bar>
         \<le> max \<bar>vy (position (alien g)) * vz (cam_position (camera (updateCamera64 g)))\<bar>
               \<bar>vz (position (alien g)) * vy (cam_position (camera (updateCamera64 g)))\<bar> / 2 ^ 51
     \<and> \<bar>vy (cross (vsub (position (alien g)) CENTER_AXIS)
                (vsub (cam_position (camera (updateCamera64 g))) CENTER_AXIS))\<bar>
         \<le> max \<bar>vz (position (alien g)) * vx (cam_position (camera (updateCamera64 g)))\<bar>
               \<bar>vx (position (alien g)) * vz (cam_position (camera (updateCamera64 g)))\<bar> / 2 ^ 51
     \<and> \<bar>vz (cross (vsub (position (alien g)) CENTER_AXIS)
                (vsub (cam_position (camera (updateCamera64 g))) CENTER_AXIS))\<bar>
         \<le> max \<bar>vx (position (alien g)) * vy (cam_position (camera (updateCamera64 g)))\<bar>
               \<bar>vy (position (alien g)) * vx (cam_position (camera (updateCamera64 g)))\<bar> / 2 ^ 51"
proof -
  let ?p = "position (alien g)"
  let ?c = "fl64 (ALIEN_DISTANCE + cameraDistance g)"
  let ?cam = "cam_position (camera (updateCamera64 g))"
  have cam: "?cam = multiplyScalar64 (normalize64 ?p) ?c"
    and look: "cam_lookAt (camera (updateCamera64 g)) = Some ?p"
    by (simp_all add: camera_updateCamera64 [OF nz])
  note comp = scaled64_components [OF nz, of ?c, folded cam]
  have x: "\<bar>vy ?p * vz ?cam - vz ?p * vy ?cam\<bar>
      \<le> max \<bar>vy ?p * vz ?cam\<bar> \<bar>vz ?p * vy ?cam\<bar> / 2 ^ 51"
    unfolding comp by (rule cross_component64)
  have y: "\<bar>vz ?p * vx ?cam - vx ?p * vz ?cam\<bar>
      \<le> max \<bar>vz ?p * vx ?cam\<bar> \<bar>vx ?p * vz ?cam\<bar> / 2 ^ 51"
    unfolding comp by (rule cross_component64)
  have z: "\<bar>vx ?p * vy ?cam - vy ?p * vx ?cam\<bar>
      \<le> max \<bar>vx ?p * vy ?cam\<bar> \<bar>vy ?p * vx ?cam\<bar> / 2 ^ 51"
    unfolding comp by (rule cross_component64)
  have f: "?cam = vadd (multiplyScalar64 (normalize64 (vsub ?p CENTER_AXIS)) ?c) CENTER_AXIS"
    by (simp only: vsub_center vadd_center cam)
  have cr: "cross (vsub ?p CENTER_AXIS) (vsub ?cam CENTER_AXIS)
      = vec (vy ?p * vz ?cam - vz ?p * vy ?cam) (vz ?p * vx ?cam - vx ?p * vz ?cam)
            (vx ?p * vy ?cam - vy ?p * vx ?cam)"
    by (simp only: vsub_center cross_def)
  show ?thesis
    unfolding cr vec_sel using f look x y z by blast
qed

lemma position_updateAlien64:
  "length64 (position (alien g)) \<noteq> 0 \<Longrightarrow>
   position (alien (updateAlien64 g)) = setLength64 (position (alien g)) ALIEN_DISTANCE"
  by (simp add: updateAlien64_def)

lemma cameraDistance_updateAlien64: "cameraDistance (updateAlien64 g) = cameraDistance g"
  by (simp add: updateAlien64_def)

lemma camera64_distance:
  assumes nz: "length64 (position (alien g)) \<noteq> 0" and d: "0 \<le> ALIEN_DISTANCE + cameraDistance g"
  shows "(1 - 1 / 2 ^ 50) * (ALIEN_DISTANCE + cameraDistance g)
           \<le> vlength (cam_position (camera (updateCamera64 g)))"
    and "(1 - 1 / 2 ^ 50) * vlength (cam_position (camera (updateCamera64 g)))
           \<le> ALIEN_DISTANCE + cameraDistance g"
proof -
  let ?d = "ALIEN_DISTANCE + cameraDistance g"
  let ?c = "fl64 ?d"
  let ?cam = "cam_position (camera (updateCamera64 g))"
  have cam: "?cam = multiplyScalar64 (normalize64 (position (alien g))) ?c"
    by (simp add: camera_updateCamera64 [OF nz])
  have a: "near 11 (lengthSq ?cam) (?c * ?c)"
    unfolding cam by (rule scaled64_lengthSq [OF nz])
  have b: "near 2 (?c * ?c) (?d * ?d)"
    by (rule near_square_fl64)
  have n: "near 13 (lengthSq ?cam) (?d * ?d)"
    by (rule near_trans' [OF a b]) simp
  show "(1 - 1 / 2 ^ 50) * ?d \<le> vlength ?cam"
    unfolding vlength_lengthSq by (rule near_sqrt(1) [OF n _ d lengthSq_nonneg]) simp
  show "(1 - 1 / 2 ^ 50) * vlength ?cam \<le> ?d"
    unfolding vlength_lengthSq by (rule near_sqrt(2) [OF n _ d lengthSq_nonneg]) simp
qed

lemma setLength64_distance:
  assumes nz: "length64 v \<noteq> 0" and c: "0 \<le> c"
  shows "(1 - 1 / 2 ^ 50) * c \<le> vlength (setLength64 v c)"
    and "(1 - 1 / 2 ^ 50) * vlength (setLength64 v c) \<le> c"
proof -
  have n: "near 11 (lengthSq (setLength64 v c)) (c * c)"
    unfolding setLength64_def by (rule scaled64_lengthSq [OF nz])
  show "(1 - 1 / 2 ^ 50) * c \<le> vlength (setLength64 v c)"
    unfolding vlength_lengthSq by (rule near_sqrt(1) [OF n _ c lengthSq_nonneg]) simp
  show "(1 - 1 / 2 ^ 50) * vlength (setLength64 v c) \<le> c"
    unfolding vlength_lengthSq by (rule near_sqrt(2) [OF n _ c lengthSq_nonneg]) simp
qed

lemma length64_setLength64_nonzero:
  assumes nz: "length64 v \<noteq> 0" and c: "0 < c"
  shows "length64 (setLength64 v c) \<noteq> 0"
proof (rule length64_nonzero)
  have "0 < (1 - 1 / 2 ^ 50) * c"
    using c by simp
  also have "\<dots> \<le> vlength (setLength64 v c)"
    by (rule setLength64_distance(1) [OF nz]) (use c in simp)
  finally have "0 < sqrt (lengthSq (setLength64 v c))"
    by (simp only: vlength_lengthSq)
  then show "0 < lengthSq (setLength64 v c)"
    by simp
qed

lemma frame64_camera_beyond:
  assumes nz: "length64 (position (alien g)) \<noteq> 0" and z: "MIN_ZOOM \<le> cameraDistance g"
  shows "(1 - 1 / 2 ^ 50) * (ALIEN_DISTANCE + cameraDistance g)
           \<le> vlength (cam_position (camera (updateCamera64 (updateAlien64 g))))
     \<and> (1 - 1 / 2 ^ 50) * vlength (cam_position (camera (updateCamera64 (updateAlien64 g))))
           \<le> ALIEN_DISTANCE + cameraDistance g
     \<and> (1 - 1 / 2 ^ 50) * ALIEN_DISTANCE \<le> vlength (position (alien (updateAlien64 g)))
     \<and> (1 - 1 / 2 ^ 50) * vlength (position (alien (updateAlien64 g))) \<le> ALIEN_DISTANCE
     \<and> vlength (position (alien (updateAlien64 g)))
           < vlength (cam_position (camera (updateCamera64 (updateAlien64 g))))
     \<and> PLANET_RADIUS < vlength (cam_position (camera (updateCamera64 (updateAlien64 g))))"
proof -
  let ?g1 = "updateAlien64 g"
  let ?q = "position (alien ?g1)"
  let ?cam = "cam_position (camera (updateCamera64 ?g1))"
  have q: "?q = setLength64 (position (alien g)) ALIEN_DISTANCE"
    by (rule position_updateAlien64 [OF nz])
  have q1: "(1 - 1 / 2 ^ 50) * ALIEN_DISTANCE \<le> vlength ?q"
    and q2: "(1 - 1 / 2 ^ 50) * vlength ?q \<le> ALIEN_DISTANCE"
    unfolding q by (rule setLength64_distance [OF nz], simp add: ALIEN_DISTANCE_val)+
  have nz1: "length64 ?q \<noteq> 0"
    unfolding q by (rule length64_setLength64_nonzero [OF nz]) (simp add: ALIEN_DISTANCE_val)
  have d: "0 \<le> ALIEN_DISTANCE + cameraDistance ?g1"
    using z by (simp add: cameraDistance_updateAlien64 ALIEN_DISTANCE_val MIN_ZOOM_def)
  have c1: "(1 - 1 / 2 ^ 50) * (ALIEN_DISTANCE + cameraDistance g) \<le> vlength ?cam"
    and c2: "(1 - 1 / 2 ^ 50) * vlength ?cam \<le> ALIEN_DISTANCE + cameraDistance g"
    using camera64_distance [OF nz1 d] by (simp_all only: cameraDistance_updateAlien64)
  have lo: "(1 - 1 / 2 ^ 50) * 1035 \<le> vlength ?cam"
    using c1 z by (simp add: ALIEN_DISTANCE_val MIN_ZOOM_def)
  have hi: "(1 - 1 / 2 ^ 50) * vlength ?q \<le> 1010"
    using q2 by (simp add: ALIEN_DISTANCE_val)
  have lt: "vlength ?q < vlength ?cam"
    using lo hi by simp
  have pl: "PLANET_RADIUS < vlength ?cam"
    using lo by (simp add: PLANET_RADIUS_def BLOCK_SIZE_def)
  from c1 c2 q1 q2 lt pl show ?thesis
    by blast
qed

lemma sqrt_eq_square: "sqrt S = r \<Longrightarrow> 0 \<le> S \<Longrightarrow> S = r * r"
  by (metis real_sqrt_pow2 power2_eq_square)

lemma camera64_beyond:
  assumes nz: "length64 (position (alien g)) \<noteq> 0" and z: "MIN_ZOOM \<le> cameraDistance g"
  shows "(1 - 1 / 2 ^ 50) * (ALIEN_DISTANCE + cameraDistance g)
        \<le> vlength (vsub (cam_position (camera (updateCamera64 g))) CENTER_AXIS)
      \<and> (1 - 1 / 2 ^ 50) * vlength (vsub (cam_position (camera (updateCamera64 g))) CENTER_AXIS)
        \<le> ALIEN_DISTANCE + cameraDistance g
      \<and> (1 - 1 / 2 ^ 50) * (ALIEN_DISTANCE + MIN_ZOOM)
        \<le> vlength (vsub (cam_position (camera (updateCamera64 g))) CENTER_AXIS)
      \<and> PLANET_RADIUS < vlength (vsub (cam_position (camera (updateCamera64 g))) CENTER_AXIS)
      \<and> (1 - 1 / 2 ^ 50) * ALIEN_DISTANCE
        \<le> vlength (vsub (position (alien (updateAlien64 g))) CENTER_AXIS)
      \<and> (1 - 1 / 2 ^ 50) * vlength (vsub (position (alien (updateAlien64 g))) CENTER_AXIS)
        \<le> ALIEN_DISTANCE
      \<and> vlength (vsub (position (alien (updateAlien64 g))) CENTER_AXIS)
        < vlength (vsub (cam_position (camera (updateCamera64 (updateAlien64 g)))) CENTER_AXIS)
      \<and> PLANET_RADIUS
        < vlength (vsub (cam_position (camera (updateCamera64 (updateAlien64 g)))) CENTER_AXIS)"
proof -
  have d: "0 \<le> ALIEN_DISTANCE + cameraDistance g"
    using z by (simp add: ALIEN_DISTANCE_val MIN_ZOOM_def)
  note c = camera64_distance [OF nz d]
  have m: "(1 - 1 / 2 ^ 50) * (ALIEN_DISTANCE + MIN_ZOOM)
      \<le> vlength (cam_position (camera (updateCamera64 g)))"
    using c(1) z by simp
  then have "(1 - 1 / 2 ^ 50) * 1035 \<le> vlength (cam_position (camera (updateCamera64 g)))"
    by (simp add: ALIEN_DISTANCE_val MIN_ZOOM_def)
  then have p: "PLANET_RADIUS < vlength (cam_position (camera (updateCamera64 g)))"
    by (simp add: PLANET_RADIUS_def BLOCK_SIZE_def)
  show ?thesis
    unfolding vsub_center using c m p frame64_camera_beyond [OF nz z] by blast
qed

section \<open>The camera in exact arithmetic\<close>



lemma camera_on_ray_exact:
  "(position (alien g) \<noteq> CENTER_AXIS \<longrightarrow>
     cam_position (camera (updateCamera g))
       = vadd (multiplyScalar (vnormalize (vsub (position (alien g)) CENTER_AXIS))
                 (ALIEN_DISTANCE + cameraDistance g)) CENTER_AXIS
     \<and> cam_lookAt (camera (updateCamera g)) = Some (position (alien g))
     \<and> cross (vsub (position (alien g)) CENTER_AXIS)
             (vsub (cam_position (camera (updateCamera g))) CENTER_AXIS) = vec 0 0 0
     \<and> cam_position (camera (updateCamera g))
       = multiplyScalar (position (alien g))
           ((ALIEN_DISTANCE + cameraDistance g) / vlength (position (alien g)))
     \<and> (vlength (position (alien g)) \<le> ALIEN_DISTANCE + cameraDistance g \<longrightarrow>
          1 \<le> (ALIEN_DISTANCE + cameraDistance g) / vlength (position (alien g))))
   \<and> cam_position (camera (frames (kss @ [ks]) initial))
       = multiplyScalar (position (alien (frames (kss @ [ks]) initial)))
           ((ALIEN_DISTANCE + cameraDistance (frames (kss @ [ks]) initial)) / ALIEN_DISTANCE)
   \<and> 1 < (ALIEN_DISTANCE + cameraDistance (frames (kss @ [ks]) initial)) / ALIEN_DISTANCE
   \<and> cam_lookAt (camera (frames (kss @ [ks]) initial))
       = Some (position (alien (frames (kss @ [ks]) initial)))
   \<and> cross (vsub (position (alien (frames (kss @ [ks]) initial))) CENTER_AXIS)
           (vsub (cam_position (camera (frames (kss @ [ks]) initial))) CENTER_AXIS) = vec 0 0 0"
proof -
  let ?h = "handleInput ((frames kss initial)\<lparr>keys := ks\<rparr>)"
  let ?f = "frames (kss @ [ks]) initial"
  note fb = frame_before_camera [where kss = kss and ks = ks]
  have f: "?f = updateCamera ?h"
    by (rule fb(5))
  have l: "vlength (position (alien ?h)) = ALIEN_DISTANCE"
    by (rule fb(2))
  then have n: "position (alien ?h) \<noteq> CENTER_AXIS"
    by (auto simp add: CENTER_AXIS_def vlength_vec ALIEN_DISTANCE_val)
  have a: "position (alien ?f) = position (alien ?h)"
    by (simp add: f alien_updateCamera)
  have d: "cameraDistance ?f = cameraDistance ?h"
    by (simp add: f cameraDistance_updateCamera)
  note t = updateCamera_pose [of ?h, rule_format, OF n]
  have c: "cam_position (camera ?f)
      = multiplyScalar (position (alien ?f)) ((ALIEN_DISTANCE + cameraDistance ?f) / ALIEN_DISTANCE)"
    unfolding a d using t [THEN conjunct2, THEN conjunct2, THEN conjunct2, THEN conjunct1]
    by (simp only: f l)
  have k: "1 < (ALIEN_DISTANCE + cameraDistance ?f) / ALIEN_DISTANCE"
    using fb(3) by (simp add: d ALIEN_DISTANCE_val MIN_ZOOM_def)
  have o: "cam_lookAt (camera ?f) = Some (position (alien ?f))"
    unfolding a using t [THEN conjunct2, THEN conjunct1] by (simp only: f)
  have x: "cross (vsub (position (alien ?f)) CENTER_AXIS)
      (vsub (cam_position (camera ?f)) CENTER_AXIS) = vec 0 0 0"
    by (simp only: vsub_center c cross_scaled)
  show ?thesis
    using updateCamera_pose [of g] c k o x by blast
qed

lemma camera_beyond_alien_exact:
  "(position (alien g) \<noteq> CENTER_AXIS \<and> MIN_ZOOM \<le> cameraDistance g \<longrightarrow>
      vlength (vsub (cam_position (camera (updateCamera g))) CENTER_AXIS)
        = ALIEN_DISTANCE + cameraDistance g
      \<and> ALIEN_DISTANCE + MIN_ZOOM
           \<le> vlength (vsub (cam_position (camera (updateCamera g))) CENTER_AXIS)
      \<and> PLANET_RADIUS < vlength (vsub (cam_position (camera (updateCamera g))) CENTER_AXIS))
   \<and> vlength (vsub (cam_position (camera (frames (kss @ [ks]) initial))) CENTER_AXIS)
        = ALIEN_DISTANCE + cameraDistance (frames (kss @ [ks]) initial)
   \<and> ALIEN_DISTANCE + MIN_ZOOM
        \<le> vlength (vsub (cam_position (camera (frames (kss @ [ks]) initial))) CENTER_AXIS)
   \<and> vlength (vsub (position (alien (frames (kss @ [ks]) initial))) CENTER_AXIS)
        = ALIEN_DISTANCE
   \<and> vlength (vsub (position (alien (frames (kss @ [ks]) initial))) CENTER_AXIS)
        < vlength (vsub (cam_position (camera (frames (kss @ [ks]) initial))) CENTER_AXIS)
   \<and> PLANET_RADIUS
        < vlength (vsub (cam_position (camera (frames (kss @ [ks]) initial))) CENTER_AXIS)"
proof -
  have gen: "vlength (cam_position (camera (updateCamera s))) = ALIEN_DISTANCE + cameraDistance s
      \<and> ALIEN_DISTANCE + MIN_ZOOM \<le> vlength (cam_position (camera (updateCamera s)))
      \<and> PLANET_RADIUS < vlength (cam_position (camera (updateCamera s)))"
    if nz: "vlength (position (alien s)) \<noteq> 0" and z: "MIN_ZOOM \<le> cameraDistance s" for s
  proof -
    have "0 \<le> ALIEN_DISTANCE + cameraDistance s"
      using z by (simp add: ALIEN_DISTANCE_val MIN_ZOOM_def)
    then have "vlength (cam_position (camera (updateCamera s))) = ALIEN_DISTANCE + cameraDistance s"
      using nz by (simp add: vlength_camera)
    then show ?thesis
      using z by (simp add: ALIEN_DISTANCE_val MIN_ZOOM_def PLANET_RADIUS_def BLOCK_SIZE_def)
  qed
  let ?h = "handleInput ((frames kss initial)\<lparr>keys := ks\<rparr>)"
  let ?f = "frames (kss @ [ks]) initial"
  note fb = frame_before_camera [where kss = kss and ks = ks]
  have f: "?f = updateCamera ?h"
    by (rule fb(5))
  have nz: "vlength (position (alien ?h)) \<noteq> 0"
    by (simp add: fb(2) ALIEN_DISTANCE_val)
  have p: "vlength (position (alien ?f)) = ALIEN_DISTANCE"
    by (simp add: f alien_updateCamera fb(2))
  have d: "cameraDistance ?f = cameraDistance ?h"
    by (simp add: f cameraDistance_updateCamera)
  have c: "vlength (cam_position (camera ?f)) = ALIEN_DISTANCE + cameraDistance ?f
      \<and> ALIEN_DISTANCE + MIN_ZOOM \<le> vlength (cam_position (camera ?f))
      \<and> PLANET_RADIUS < vlength (cam_position (camera ?f))"
    unfolding f cameraDistance_updateCamera by (rule gen [OF nz fb(3)])
  have lt: "vlength (position (alien ?f)) < vlength (cam_position (camera ?f))"
    using c p by (simp add: MIN_ZOOM_def)
  have g1: "position (alien g) \<noteq> CENTER_AXIS \<and> MIN_ZOOM \<le> cameraDistance g \<longrightarrow>
      vlength (cam_position (camera (updateCamera g))) = ALIEN_DISTANCE + cameraDistance g
      \<and> ALIEN_DISTANCE + MIN_ZOOM \<le> vlength (cam_position (camera (updateCamera g)))
      \<and> PLANET_RADIUS < vlength (cam_position (camera (updateCamera g)))"
  proof
    assume a: "position (alien g) \<noteq> CENTER_AXIS \<and> MIN_ZOOM \<le> cameraDistance g"
    then have "vlength (position (alien g)) \<noteq> 0"
      by (simp add: vlength_zero_iff CENTER_AXIS_def)
    with a show "vlength (cam_position (camera (updateCamera g))) = ALIEN_DISTANCE + cameraDistance g
      \<and> ALIEN_DISTANCE + MIN_ZOOM \<le> vlength (cam_position (camera (updateCamera g)))
      \<and> PLANET_RADIUS < vlength (cam_position (camera (updateCamera g)))"
      by (intro gen) simp_all
  qed
  show ?thesis
    unfolding vsub_center using g1 c p lt by blast
qed

section \<open>The claims\<close>

text \<open>
  C1 at a failing input. In the initial state the azimuth is 0; one frame with the A
  key down computes \<^verbatim>\<open>(0 + -0.02) % (2 * Math.PI)\<close>, which is \<^verbatim>\<open>-0.02\<close>: the
  remainder keeps the sign of the dividend, so the azimuth leaves \<^verbatim>\<open>[0, 2 pi)\<close>.
\<close>

theorem azimuth_negative_after_left:
  "phi (spherical (alien (handleInput (initial\<lparr>keys := holding ''a''\<rparr>)))) = - 0.02"
proof -
  have "js_rem (- 0.02) (pi * 2) = - 0.02"
    by (rule js_rem_small_negative) (use pi_ge_two in simp_all)
  then show ?thesis
    by (simp add: alien_handleInput dTheta_a dPhi_a phi_applyAngles initial_fields)
qed

theorem azimuth_negative_after_left_witness:
  "phi (spherical (alien (handleInput (initial\<lparr>keys := holding ''a''\<rparr>)))) < 0
   \<and> phi (spherical (alien (animate (initial\<lparr>keys := holding ''a''\<rparr>)))) < 0"
  using azimuth_negative_after_left by (simp add: spherical_animate)



text \<open>
  C3, as the code has it. For a position of the alien other than the centre,
  \<^verbatim>\<open>updateCamera\<close> puts the camera at
  \<^verbatim>\<open>normalize(position - centre) * (ALIEN_DISTANCE + cameraDistance) + centre\<close> and makes
  it look at the position of the alien. In exact arithmetic the cross product of
  \<^verbatim>\<open>position - centre\<close> and \<^verbatim>\<open>camera - centre\<close> is the zero vector, the camera is
  the position scaled by \<^verbatim>\<open>(ALIEN_DISTANCE + cameraDistance) / |position|\<close>, and after
  every frame of a run from the initial state that factor is above 1, so that centre,
  alien and camera lie on one ray in that order. In binary64, where the guard
  \<^verbatim>\<open>length() === 0\<close> is passed, the camera and the look target are given by the same
  formula with each result rounded, and each component of the cross product is at most
  \<^verbatim>\<open>2^-51\<close> times the larger of the two products it is the difference of.
\<close>

theorem camera_on_ray:
  "((position (alien g) \<noteq> CENTER_AXIS \<longrightarrow>
      cam_position (camera (updateCamera g))
        = vadd (multiplyScalar (vnormalize (vsub (position (alien g)) CENTER_AXIS))
                  (ALIEN_DISTANCE + cameraDistance g)) CENTER_AXIS
      \<and> cam_lookAt (camera (updateCamera g)) = Some (position (alien g))
      \<and> cross (vsub (position (alien g)) CENTER_AXIS)
              (vsub (cam_position (camera (updateCamera g))) CENTER_AXIS) = vec 0 0 0
      \<and> cam_position (camera (updateCamera g))
        = multiplyScalar (position (alien g))
            ((ALIEN_DISTANCE + cameraDistance g) / vlength (position (alien g)))
      \<and> (vlength (position (alien g)) \<le> ALIEN_DISTANCE + cameraDistance g \<longrightarrow>
           1 \<le> (ALIEN_DISTANCE + cameraDistance g) / vlength (position (alien g))))
    \<and> cam_position (camera (frames (kss @ [ks]) initial))
        = multiplyScalar (position (alien (frames (kss @ [ks]) initial)))
            ((ALIEN_DISTANCE + cameraDistance (frames (kss @ [ks]) initial)) / ALIEN_DISTANCE)
    \<and> 1 < (ALIEN_DISTANCE + cameraDistance (frames (kss @ [ks]) initial)) / ALIEN_DISTANCE
    \<and> cam_lookAt (camera (frames (kss @ [ks]) initial))
        = Some (position (alien (frames (kss @ [ks]) initial)))
    \<and> cross (vsub (position (alien (frames (kss @ [ks]) initial))) CENTER_AXIS)
            (vsub (cam_position (camera (frames (kss @ [ks]) initial))) CENTER_AXIS) = vec 0 0 0)
   \<and> (length64 (position (alien g)) \<noteq> 0 \<longrightarrow>
       cam_position (camera (updateCamera64 g))
         = vadd (multiplyScalar64 (normalize64 (vsub (position (alien g)) CENTER_AXIS))
                   (fl64 (ALIEN_DISTANCE + cameraDistance g))) CENTER_AXIS
       \<and> cam_lookAt (camera (updateCamera64 g)) = Some (position (alien g))
       \<and> \<bar>vx (cross (vsub (position (alien g)) CENTER_AXIS)
                  (vsub (cam_position (camera (updateCamera64 g))) CENTER_AXIS))\<bar>
           \<le> max \<bar>vy (position (alien g)) * vz (cam_position (camera (updateCamera64 g)))\<bar>
                 \<bar>vz (position (alien g)) * vy (cam_position (camera (updateCamera64 g)))\<bar> / 2 ^ 51
       \<and> \<bar>vy (cross (vsub (position (alien g)) CENTER_AXIS)
                  (vsub (cam_position (camera (updateCamera64 g))) CENTER_AXIS))\<bar>
           \<le> max \<bar>vz (position (alien g)) * vx (cam_position (camera (updateCamera64 g)))\<bar>
                 \<bar>vx (position (alien g)) * vz (cam_position (camera (updateCamera64 g)))\<bar> / 2 ^ 51
       \<and> \<bar>vz (cross (vsub (position (alien g)) CENTER_AXIS)
                  (vsub (cam_position (camera (updateCamera64 g))) CENTER_AXIS))\<bar>
           \<le> max \<bar>vx (position (alien g)) * vy (cam_position (camera (updateCamera64 g)))\<bar>
                 \<bar>vy (position (alien g)) * vx (cam_position (camera (updateCamera64 g)))\<bar> / 2 ^ 51)"
proof (rule conjI)
  show "(position (alien g) \<noteq> CENTER_AXIS \<longrightarrow>
       cam_position (camera (updateCamera g))
         = vadd (multiplyScalar (vnormalize (vsub (position (alien g)) CENTER_AXIS))
                   (ALIEN_DISTANCE + cameraDistance g)) CENTER_AXIS
       \<and> cam_lookAt (camera (updateCamera g)) = Some (position (alien g))
       \<and> cross (vsub (position (alien g)) CENTER_AXIS)
               (vsub (cam_position (camera (updateCamera g))) CENTER_AXIS) = vec 0 0 0
       \<and> cam_position (camera (updateCamera g))
         = multiplyScalar (position (alien g))
             ((ALIEN_DISTANCE + cameraDistance g) / vlength (position (alien g)))
       \<and> (vlength (position (alien g)) \<le> ALIEN_DISTANCE + cameraDistance g \<longrightarrow>
            1 \<le> (ALIEN_DISTANCE + cameraDistance g) / vlength (position (alien g))))
     \<and> cam_position (camera (frames (kss @ [ks]) initial))
         = multiplyScalar (position (alien (frames (kss @ [ks]) initial)))
             ((ALIEN_DISTANCE + cameraDistance (frames (kss @ [ks]) initial)) / ALIEN_DISTANCE)
     \<and> 1 < (ALIEN_DISTANCE + cameraDistance (frames (kss @ [ks]) initial)) / ALIEN_DISTANCE
     \<and> cam_lookAt (camera (frames (kss @ [ks]) initial))
         = Some (position (alien (frames (kss @ [ks]) initial)))
     \<and> cross (vsub (position (alien (frames (kss @ [ks]) initial))) CENTER_AXIS)
             (vsub (cam_position (camera (frames (kss @ [ks]) initial))) CENTER_AXIS) = vec 0 0 0"
    by (rule camera_on_ray_exact)
  show "length64 (position (alien g)) \<noteq> 0 \<longrightarrow>
       cam_position (camera (updateCamera64 g))
         = vadd (multiplyScalar64 (normalize64 (vsub (position (alien g)) CENTER_AXIS))
                   (fl64 (ALIEN_DISTANCE + cameraDistance g))) CENTER_AXIS
       \<and> cam_lookAt (camera (updateCamera64 g)) = Some (position (alien g))
       \<and> \<bar>vx (cross (vsub (position (alien g)) CENTER_AXIS)
                  (vsub (cam_position (camera (updateCamera64 g))) CENTER_AXIS))\<bar>
           \<le> max \<bar>vy (position (alien g)) * vz (cam_position (camera (updateCamera64 g)))\<bar>
                 \<bar>vz (position (alien g)) * vy (cam_position (camera (updateCamera64 g)))\<bar> / 2 ^ 51
       \<and> \<bar>vy (cross (vsub (position (alien g)) CENTER_AXIS)
                  (vsub (cam_position (camera (updateCamera64 g))) CENTER_AXIS))\<bar>
           \<le> max \<bar>vz (position (alien g)) * vx (cam_position (camera (updateCamera64 g)))\<bar>
                 \<bar>vx (position (alien g)) * vz (cam_position (camera (updateCamera64 g)))\<bar> / 2 ^ 51
       \<and> \<bar>vz (cross (vsub (position (alien g)) CENTER_AXIS)
                  (vsub (cam_position (camera (updateCamera64 g))) CENTER_AXIS))\<bar>
           \<le> max \<bar>vx (position (alien g)) * vy (cam_position (camera (updateCamera64 g)))\<bar>
                 \<bar>vy (position (alien g)) * vx (cam_position (camera (updateCamera64 g)))\<bar> / 2 ^ 51"
    by (rule impI) (rule updateCamera64_pose)
qed

theorem camera_on_ray_witness:
  "position (alien initial) \<noteq> CENTER_AXIS
   \<and> cam_position (camera (updateCamera initial)) = vec 0 1210 0
   \<and> cam_lookAt (camera (updateCamera initial)) = Some (vec 0 1010 0)
   \<and> cross (vsub (position (alien initial)) CENTER_AXIS)
           (vsub (cam_position (camera (updateCamera initial))) CENTER_AXIS) = vec 0 0 0
   \<and> vlength (position (alien initial)) \<le> ALIEN_DISTANCE + cameraDistance initial
   \<and> length64 (position (alien afterW)) \<noteq> 0
   \<and> cam_lookAt (camera (updateCamera64 afterW)) = Some (position (alien afterW))"
proof -
  have p: "position (alien initial) = vec 0 1010 0"
    by (simp add: initial_fields ALIEN_DISTANCE_val)
  have n: "position (alien initial) \<noteq> CENTER_AXIS"
    by (simp add: p CENTER_AXIS_def vec_eq_iff)
  have vv: "vlength (vec 0 1010 0) = 1010"
    by (simp add: vlength_axis)
  have v: "vlength (position (alien initial)) = 1010"
    by (simp add: p vv)
  have d: "ALIEN_DISTANCE + cameraDistance initial = 1210"
    by (simp add: initial_fields ALIEN_DISTANCE_val)
  note t = camera_on_ray [of initial, THEN conjunct1, THEN conjunct1, rule_format, OF n]
  have c: "cam_position (camera (updateCamera initial)) = vec 0 1210 0"
    using t [THEN conjunct2, THEN conjunct2, THEN conjunct2, THEN conjunct1]
    by (simp add: p vv d multiplyScalar_def)
  have l: "cam_lookAt (camera (updateCamera initial)) = Some (vec 0 1010 0)"
    using t [THEN conjunct2, THEN conjunct1] by (simp add: p)
  have x: "cross (vsub (position (alien initial)) CENTER_AXIS)
           (vsub (cam_position (camera (updateCamera initial))) CENTER_AXIS) = vec 0 0 0"
    using t by blast
  have f: "length64 (position (alien afterW)) \<noteq> 0"
    unfolding w64_position w64_length by (rule w64_length_nonzero)
  have k: "cam_lookAt (camera (updateCamera64 afterW)) = Some (position (alien afterW))"
    using camera_on_ray [of afterW, THEN conjunct2] f by blast
  have e: "vlength (position (alien initial)) \<le> ALIEN_DISTANCE + cameraDistance initial"
    by (simp add: v d)
  from n c l x e f k show ?thesis
    by blast
qed

text \<open>
  C3, as the specification states it, fails in the arithmetic of the code. In the first
  frame of a run with W down the camera is set to
  \<^verbatim>\<open>(0, 1209.939500504165, 12.099798334341664)\<close> and the cross product of
  \<^verbatim>\<open>position - centre\<close> and \<^verbatim>\<open>camera - centre\<close> is not the zero vector; computed
  in binary64 its first component is \<^verbatim>\<open>-2^-39\<close>, about \<^verbatim>\<open>-1.8e-12\<close>.
\<close>

theorem cross_product_not_zero_in_binary64:
  "cam_position (camera (updateCamera64 afterW)) = vec 0 (5321370198839259 / 2 ^ 42) (1702895227181227 / 2 ^ 47)
   \<and> cross (vsub (position (alien afterW)) CENTER_AXIS)
           (vsub (cam_position (camera (updateCamera64 afterW))) CENTER_AXIS) \<noteq> vec 0 0 0
   \<and> cross64 (vsub (position (alien afterW)) CENTER_AXIS)
           (vsub (cam_position (camera (updateCamera64 afterW))) CENTER_AXIS)
       = vec (- (1 / 2 ^ 39)) 0 0"
proof -
  have "cross (vec 0 (8883609753434135 / 2 ^ 43) (5685699766786907 / 2 ^ 49)) (vec 0 (5321370198839259 / 2 ^ 42) (1702895227181227 / 2 ^ 47)) \<noteq> vec 0 0 0"
    by (simp add: cross_def vec_eq_iff)
  then show ?thesis
    by (simp only: vsub_center w64_camera w64_position w64_cross simp_thms)
qed

text \<open>
  C4. In a frame in which the direction keys give a nonzero angular delta
  (\<^verbatim>\<open>dTheta !== 0 || dPhi !== 0\<close>), the new polar angle is
  \<^verbatim>\<open>clamp(theta + dTheta, 0.01, pi - 0.01)\<close>; after that update and after every
  further run of frames, whatever the keys, the polar angle lies in
  \<^verbatim>\<open>[0.01, pi - 0.01]\<close> and is neither 0 nor pi.
\<close>

theorem polarAngle_clamped:
  "dTheta g \<noteq> 0 \<or> dPhi g \<noteq> 0 \<longrightarrow>
     theta (spherical (alien (handleInput g)))
       = clamp (theta (spherical (alien g)) + dTheta g) 0.01 (pi - 0.01)
     \<and> 0.01 \<le> theta (spherical (alien (frames kss (animate g))))
     \<and> theta (spherical (alien (frames kss (animate g)))) \<le> pi - 0.01
     \<and> theta (spherical (alien (frames kss (animate g)))) \<noteq> 0
     \<and> theta (spherical (alien (frames kss (animate g)))) \<noteq> pi"
proof
  assume m: "dTheta g \<noteq> 0 \<or> dPhi g \<noteq> 0"
  have eq: "theta (spherical (alien (handleInput g)))
       = clamp (theta (spherical (alien g)) + dTheta g) 0.01 (pi - 0.01)"
    using m pi_bounds(1) by (simp add: theta_handleInput clamp_min_max)
  have "0.01 \<le> theta (spherical (alien (animate g)))
      \<and> theta (spherical (alien (animate g))) \<le> pi - 0.01"
    using m min_max_range [OF pi_bounds(1)] by (simp only: spherical_animate theta_handleInput if_True)
  then have r: "0.01 \<le> theta (spherical (alien (frames kss (animate g))))
      \<and> theta (spherical (alien (frames kss (animate g)))) \<le> pi - 0.01"
    using theta_frames_range by blast
  from r have "theta (spherical (alien (frames kss (animate g)))) \<noteq> 0"
    and "theta (spherical (alien (frames kss (animate g)))) \<noteq> pi"
    by auto
  with eq r show "theta (spherical (alien (handleInput g)))
       = clamp (theta (spherical (alien g)) + dTheta g) 0.01 (pi - 0.01)
     \<and> 0.01 \<le> theta (spherical (alien (frames kss (animate g))))
     \<and> theta (spherical (alien (frames kss (animate g)))) \<le> pi - 0.01
     \<and> theta (spherical (alien (frames kss (animate g)))) \<noteq> 0
     \<and> theta (spherical (alien (frames kss (animate g)))) \<noteq> pi"
    by blast
qed

theorem polarAngle_clamped_witness:
  "dTheta (initial\<lparr>keys := holding ''w''\<rparr>) \<noteq> 0 \<and>
   theta (spherical (alien (handleInput (initial\<lparr>keys := holding ''w''\<rparr>)))) = 0.01 \<and>
   0.01 \<le> theta (spherical (alien (frames [holding ''s''] (animate (initial\<lparr>keys := holding ''w''\<rparr>)))))"
  using polarAngle_clamped [of "initial\<lparr>keys := holding ''w''\<rparr>" "[holding ''s'']"]
  by (simp add: dTheta_w theta_initial clamp_def)

text \<open>
  C5, as the code has it. \<^verbatim>\<open>handleInput\<close> recomputes the position from the two
  angles in the frames in which the direction keys give a nonzero delta; in every
  other frame it leaves the alien, position and angles, as it was.
\<close>

theorem recomputed_only_on_change:
  "(dTheta g \<noteq> 0 \<or> dPhi g \<noteq> 0 \<longrightarrow>
      position (alien (handleInput g))
        = reprojection ALIEN_DISTANCE (spherical (alien (handleInput g))))
   \<and> (dTheta g = 0 \<and> dPhi g = 0 \<longrightarrow> alien (handleInput g) = alien g)"
  by (simp add: position_handleInput spherical_handleInput_still)

theorem recomputed_only_on_change_witness:
  "dTheta (initial\<lparr>keys := holding ''w''\<rparr>) \<noteq> 0
   \<and> position (alien (handleInput (initial\<lparr>keys := holding ''w''\<rparr>)))
       = reprojection ALIEN_DISTANCE \<lparr>theta = 0.01, phi = 0\<rparr>
   \<and> dTheta (initial\<lparr>alien := (alien initial)\<lparr>position := vec ALIEN_DISTANCE 0 0\<rparr>\<rparr>) = 0
   \<and> dPhi (initial\<lparr>alien := (alien initial)\<lparr>position := vec ALIEN_DISTANCE 0 0\<rparr>\<rparr>) = 0
   \<and> position (alien (handleInput (initial\<lparr>alien := (alien initial)\<lparr>position := vec ALIEN_DISTANCE 0 0\<rparr>\<rparr>)))
       = vec ALIEN_DISTANCE 0 0"
proof -
  have s: "spherical (alien (handleInput (initial\<lparr>keys := holding ''w''\<rparr>)))
      = \<lparr>theta = 0.01, phi = 0\<rparr>"
    using angles_after_w by simp
  show ?thesis
    using recomputed_only_on_change [of "initial\<lparr>keys := holding ''w''\<rparr>"]
      recomputed_only_on_change [of "initial\<lparr>alien := (alien initial)\<lparr>position := vec ALIEN_DISTANCE 0 0\<rparr>\<rparr>"]
    by (simp add: dTheta_w no_keys_initial s)
qed

text \<open>
  C5, as the specification states it, fails: from a state whose stored position is
  not the projection of its angles, a frame without direction keys ends with the
  position still different from the projection of the angles.
\<close>

theorem stale_position_not_recomputed:
  "position (alien (animate (initial\<lparr>alien := (alien initial)\<lparr>position := vec ALIEN_DISTANCE 0 0\<rparr>\<rparr>)))
   \<noteq> reprojection ALIEN_DISTANCE
       (spherical (alien (animate (initial\<lparr>alien := (alien initial)\<lparr>position := vec ALIEN_DISTANCE 0 0\<rparr>\<rparr>))))"
proof -
  let ?g = "initial\<lparr>alien := (alien initial)\<lparr>position := vec ALIEN_DISTANCE 0 0\<rparr>\<rparr>"
  have a: "alien (handleInput ?g) = alien ?g"
    by (rule spherical_handleInput_still) (simp_all add: no_keys_initial)
  have "vlength (position (alien (handleInput ?g))) = ALIEN_DISTANCE"
    by (simp only: a) (simp add: vlength_axis ALIEN_DISTANCE_val)
  then have p: "position (alien (animate ?g)) = vec ALIEN_DISTANCE 0 0"
    by (simp add: position_animate updateAlien_on_sphere a)
  have s: "spherical (alien (animate ?g)) = \<lparr>theta = 0, phi = 0\<rparr>"
    by (simp only: spherical_animate a) (simp add: initial_def)
  show ?thesis
    by (simp only: p s) (simp add: reprojection_def vec_eq_iff ALIEN_DISTANCE_val)
qed

text \<open>
  C6. When \<^verbatim>\<open>handleInput\<close> reprojects the position, the position is
  \<^verbatim>\<open>(r sin t sin p, r cos t, r sin t cos p)\<close> for \<^verbatim>\<open>r = ALIEN_DISTANCE\<close> and the new
  angles \<^verbatim>\<open>t\<close> and \<^verbatim>\<open>p\<close>.
\<close>

theorem reprojection_formula:
  "dTheta g \<noteq> 0 \<or> dPhi g \<noteq> 0 \<longrightarrow>
     position (alien (handleInput g))
       = vec (ALIEN_DISTANCE * sin (theta (spherical (alien (handleInput g))))
                * sin (phi (spherical (alien (handleInput g)))))
             (ALIEN_DISTANCE * cos (theta (spherical (alien (handleInput g)))))
             (ALIEN_DISTANCE * sin (theta (spherical (alien (handleInput g))))
                * cos (phi (spherical (alien (handleInput g)))))"
  by (simp add: position_handleInput reprojection_def)

theorem reprojection_formula_witness:
  "dTheta (initial\<lparr>keys := holding ''w''\<rparr>) \<noteq> 0
   \<and> position (alien (handleInput (initial\<lparr>keys := holding ''w''\<rparr>)))
       = vec 0 (ALIEN_DISTANCE * cos 0.01) (ALIEN_DISTANCE * sin 0.01)"
  using reprojection_formula [of "initial\<lparr>keys := holding ''w''\<rparr>"]
  by (simp add: dTheta_w angles_after_w)

text \<open>
  C7. Over every run of frames from the initial state, whatever keys each frame sees
  (so in particular for every sequence of zoom-in and zoom-out frames), the zoom
  distance stays in \<^verbatim>\<open>[MIN_ZOOM, MAX_ZOOM]\<close> and one more frame changes it by at most
  \<^verbatim>\<open>ZOOM_SPEED\<close>. A zoom-in frame (O down, P up) at distance \<^verbatim>\<open>MIN_ZOOM\<close> leaves
  the distance at \<^verbatim>\<open>MIN_ZOOM\<close>.
\<close>

theorem zoomDistance_bounded:
  "MIN_ZOOM \<le> cameraDistance (frames kss initial)
   \<and> cameraDistance (frames kss initial) \<le> MAX_ZOOM
   \<and> \<bar>cameraDistance (frames (kss @ [ks]) initial) - cameraDistance (frames kss initial)\<bar>
       \<le> ZOOM_SPEED
   \<and> (cameraDistance g = MIN_ZOOM \<and> pressed g ''o'' \<and> \<not> pressed g ''p''
        \<longrightarrow> cameraDistance (animate g) = MIN_ZOOM)"
proof -
  let ?g = "frames kss initial"
  have r: "MIN_ZOOM \<le> cameraDistance ?g \<and> cameraDistance ?g \<le> MAX_ZOOM"
    using zoom_frames zoom_initial by blast
  have "\<bar>cameraDistance (handleInput (?g\<lparr>keys := ks\<rparr>)) - cameraDistance (?g\<lparr>keys := ks\<rparr>)\<bar>
      \<le> ZOOM_SPEED"
    using zoom_step [of "?g\<lparr>keys := ks\<rparr>"] r by simp
  then have s: "\<bar>cameraDistance (frames (kss @ [ks]) initial) - cameraDistance ?g\<bar> \<le> ZOOM_SPEED"
    by (simp add: frames_snoc cameraDistance_animate)
  have m: "cameraDistance g = MIN_ZOOM \<and> pressed g ''o'' \<and> \<not> pressed g ''p''
        \<longrightarrow> cameraDistance (animate g) = MIN_ZOOM"
    by (simp add: cameraDistance_animate cameraDistance_handleInput ZOOM_SPEED_def MIN_ZOOM_def)
  from r s m show ?thesis by blast
qed

theorem zoomDistance_bounded_witness:
  "cameraDistance (frames [holding ''o''] initial) = 190
   \<and> MIN_ZOOM \<le> cameraDistance (frames [holding ''o''] initial)
   \<and> \<bar>cameraDistance (frames ([holding ''o''] @ [holding ''p'']) initial)
        - cameraDistance (frames [holding ''o''] initial)\<bar> \<le> ZOOM_SPEED
   \<and> cameraDistance (initial\<lparr>cameraDistance := MIN_ZOOM, keys := holding ''o''\<rparr>) = MIN_ZOOM
   \<and> pressed (initial\<lparr>cameraDistance := MIN_ZOOM, keys := holding ''o''\<rparr>) ''o''
   \<and> \<not> pressed (initial\<lparr>cameraDistance := MIN_ZOOM, keys := holding ''o''\<rparr>) ''p''
   \<and> cameraDistance (animate (initial\<lparr>cameraDistance := MIN_ZOOM, keys := holding ''o''\<rparr>)) = MIN_ZOOM"
proof -
  have "cameraDistance (frames [holding ''o''] initial) = 190"
    by (simp add: cameraDistance_animate cameraDistance_handleInput initial_fields
        MIN_ZOOM_def ZOOM_SPEED_def)
  then show ?thesis
    using zoomDistance_bounded [of "[holding ''o'']" "holding ''p''"
        "initial\<lparr>cameraDistance := MIN_ZOOM, keys := holding ''o''\<rparr>"]
    by simp
qed

text \<open>
  C8, as the code has it. The polar angle starts at 0. "Forward" is the W key, which
  subtracts the step, so the first forward frame clamps the angle to 0.01 and every
  further forward frame leaves it at 0.01, the lower bound of the clamp (and so below
  \<^verbatim>\<open>pi - 0.01\<close>).
\<close>

theorem forward_stays_at_epsilon:
  "theta (spherical (alien initial)) = 0 \<and>
   (1 \<le> n \<longrightarrow>
      theta (spherical (alien (frames (replicate n (holding ''w'')) initial))) = 0.01
    \<and> theta (spherical (alien (frames (replicate n (holding ''w'')) initial))) \<le> pi - 0.01)"
proof (cases n)
  case 0
  then show ?thesis by (simp add: theta_initial)
next
  case (Suc m)
  have "theta (spherical (alien (frames (replicate (Suc m) (holding ''w'')) initial))) = 0.01"
    by (rule theta_forward_run) (simp add: theta_initial)
  then show ?thesis
    using Suc pi_bounds(1) by (simp add: theta_initial)
qed

theorem forward_stays_at_epsilon_witness:
  "(1::nat) \<le> 1000 \<and>
   theta (spherical (alien (frames (replicate 1000 (holding ''w'')) initial))) = 0.01"
  using forward_stays_at_epsilon [of 1000] by simp

text \<open>
  C8, as the specification states it, fails: after 1000 forward frames the polar angle
  is not at \<^verbatim>\<open>pi - 0.01\<close>.
\<close>

theorem forward_not_at_upper_bound:
  "theta (spherical (alien (frames (replicate 1000 (holding ''w'')) initial))) \<noteq> pi - 0.01"
proof -
  have "theta (spherical (alien (frames (replicate (Suc 999) (holding ''w'')) initial))) = 0.01"
    by (rule theta_forward_run) (simp add: theta_initial)
  then have "theta (spherical (alien (frames (replicate 1000 (holding ''w'')) initial))) = 0.01"
    by simp
  then show ?thesis
    using pi_bounds(2) by simp
qed

text \<open>
  C9. When the position of the alien is exactly the centre, \<^verbatim>\<open>updateCamera\<close>
  returns at its guard and the whole state, the camera with it, is as before; in a
  frame whose \<^verbatim>\<open>handleInput\<close> leaves the alien at the centre the camera is
  untouched. The functions are total and return a state: no error value exists.
\<close>

theorem camera_unchanged_at_center:
  "(position (alien g) = CENTER_AXIS \<longrightarrow> updateCamera g = g)
   \<and> (position (alien (handleInput g)) = CENTER_AXIS \<longrightarrow> camera (animate g) = camera g)"
proof -
  have a: "updateCamera h = h" if "position (alien h) = CENTER_AXIS" for h
    using that by (simp add: updateCamera_def Let_def CENTER_AXIS_def vlength_zero_iff)
  have b: "updateAlien h = h" if "position (alien h) = CENTER_AXIS" for h
    using that by (simp add: updateAlien_def CENTER_AXIS_def vlength_zero_iff)
  show ?thesis
    using a b by (simp add: animate_def camera_handleInput)
qed

theorem camera_unchanged_at_center_witness:
  "position (alien (initial\<lparr>alien := (alien initial)\<lparr>position := CENTER_AXIS\<rparr>\<rparr>)) = CENTER_AXIS
   \<and> updateCamera (initial\<lparr>alien := (alien initial)\<lparr>position := CENTER_AXIS\<rparr>\<rparr>)
       = initial\<lparr>alien := (alien initial)\<lparr>position := CENTER_AXIS\<rparr>\<rparr>
   \<and> position (alien (handleInput (initial\<lparr>alien := (alien initial)\<lparr>position := CENTER_AXIS\<rparr>\<rparr>)))
       = CENTER_AXIS
   \<and> camera (animate (initial\<lparr>alien := (alien initial)\<lparr>position := CENTER_AXIS\<rparr>\<rparr>))
       = camera initial"
proof -
  let ?g = "initial\<lparr>alien := (alien initial)\<lparr>position := CENTER_AXIS\<rparr>\<rparr>"
  have d: "dTheta ?g = 0" "dPhi ?g = 0"
    by (simp_all add: dTheta_def dPhi_def pressed_def initial_fields)
  have p: "position (alien (handleInput ?g)) = CENTER_AXIS"
    by (simp add: alien_handleInput d)
  show ?thesis
    using camera_unchanged_at_center [of ?g] p by simp
qed

text \<open>
  C10, as the code has it. In exact arithmetic, when the alien is not at the centre and
  the zoom distance is at least \<^verbatim>\<open>MIN_ZOOM\<close>, the camera \<^verbatim>\<open>updateCamera\<close> sets is
  at distance \<^verbatim>\<open>ALIEN_DISTANCE + cameraDistance\<close> from the centre, at least
  \<^verbatim>\<open>ALIEN_DISTANCE + MIN_ZOOM\<close> and more than \<^verbatim>\<open>PLANET_RADIUS\<close>; after every frame
  of a run from the initial state this holds and the camera is strictly farther from
  the centre than the alien. In binary64, where the guard \<^verbatim>\<open>length() === 0\<close> is
  passed and the zoom distance is at least \<^verbatim>\<open>MIN_ZOOM\<close>, the distance of the camera
  from the centre and \<^verbatim>\<open>ALIEN_DISTANCE + cameraDistance\<close> are each at least
  \<^verbatim>\<open>1 - 2^-50\<close> times the other, so that the distance is at least
  \<^verbatim>\<open>(1 - 2^-50) * (ALIEN_DISTANCE + MIN_ZOOM)\<close>; the camera is outside the planet, and after
  \<^verbatim>\<open>updateAlien\<close> and \<^verbatim>\<open>updateCamera\<close> the alien is within the same tolerance of
  \<^verbatim>\<open>ALIEN_DISTANCE\<close> and strictly nearer the centre than the camera.
\<close>

theorem camera_beyond_alien:
  "((position (alien g) \<noteq> CENTER_AXIS \<and> MIN_ZOOM \<le> cameraDistance g \<longrightarrow>
       vlength (vsub (cam_position (camera (updateCamera g))) CENTER_AXIS)
         = ALIEN_DISTANCE + cameraDistance g
       \<and> ALIEN_DISTANCE + MIN_ZOOM
            \<le> vlength (vsub (cam_position (camera (updateCamera g))) CENTER_AXIS)
       \<and> PLANET_RADIUS < vlength (vsub (cam_position (camera (updateCamera g))) CENTER_AXIS))
    \<and> vlength (vsub (cam_position (camera (frames (kss @ [ks]) initial))) CENTER_AXIS)
         = ALIEN_DISTANCE + cameraDistance (frames (kss @ [ks]) initial)
    \<and> ALIEN_DISTANCE + MIN_ZOOM
         \<le> vlength (vsub (cam_position (camera (frames (kss @ [ks]) initial))) CENTER_AXIS)
    \<and> vlength (vsub (position (alien (frames (kss @ [ks]) initial))) CENTER_AXIS)
         = ALIEN_DISTANCE
    \<and> vlength (vsub (position (alien (frames (kss @ [ks]) initial))) CENTER_AXIS)
         < vlength (vsub (cam_position (camera (frames (kss @ [ks]) initial))) CENTER_AXIS)
    \<and> PLANET_RADIUS
         < vlength (vsub (cam_position (camera (frames (kss @ [ks]) initial))) CENTER_AXIS))
   \<and> (length64 (position (alien g)) \<noteq> 0 \<and> MIN_ZOOM \<le> cameraDistance g \<longrightarrow>
      (1 - 1 / 2 ^ 50) * (ALIEN_DISTANCE + cameraDistance g)
        \<le> vlength (vsub (cam_position (camera (updateCamera64 g))) CENTER_AXIS)
      \<and> (1 - 1 / 2 ^ 50) * vlength (vsub (cam_position (camera (updateCamera64 g))) CENTER_AXIS)
        \<le> ALIEN_DISTANCE + cameraDistance g
      \<and> (1 - 1 / 2 ^ 50) * (ALIEN_DISTANCE + MIN_ZOOM)
        \<le> vlength (vsub (cam_position (camera (updateCamera64 g))) CENTER_AXIS)
      \<and> PLANET_RADIUS < vlength (vsub (cam_position (camera (updateCamera64 g))) CENTER_AXIS)
      \<and> (1 - 1 / 2 ^ 50) * ALIEN_DISTANCE
        \<le> vlength (vsub (position (alien (updateAlien64 g))) CENTER_AXIS)
      \<and> (1 - 1 / 2 ^ 50) * vlength (vsub (position (alien (updateAlien64 g))) CENTER_AXIS)
        \<le> ALIEN_DISTANCE
      \<and> vlength (vsub (position (alien (updateAlien64 g))) CENTER_AXIS)
        < vlength (vsub (cam_position (camera (updateCamera64 (updateAlien64 g)))) CENTER_AXIS)
      \<and> PLANET_RADIUS
        < vlength (vsub (cam_position (camera (updateCamera64 (updateAlien64 g)))) CENTER_AXIS))"
proof (rule conjI)
  show "(position (alien g) \<noteq> CENTER_AXIS \<and> MIN_ZOOM \<le> cameraDistance g \<longrightarrow>
        vlength (vsub (cam_position (camera (updateCamera g))) CENTER_AXIS)
          = ALIEN_DISTANCE + cameraDistance g
        \<and> ALIEN_DISTANCE + MIN_ZOOM
             \<le> vlength (vsub (cam_position (camera (updateCamera g))) CENTER_AXIS)
        \<and> PLANET_RADIUS < vlength (vsub (cam_position (camera (updateCamera g))) CENTER_AXIS))
     \<and> vlength (vsub (cam_position (camera (frames (kss @ [ks]) initial))) CENTER_AXIS)
          = ALIEN_DISTANCE + cameraDistance (frames (kss @ [ks]) initial)
     \<and> ALIEN_DISTANCE + MIN_ZOOM
          \<le> vlength (vsub (cam_position (camera (frames (kss @ [ks]) initial))) CENTER_AXIS)
     \<and> vlength (vsub (position (alien (frames (kss @ [ks]) initial))) CENTER_AXIS)
          = ALIEN_DISTANCE
     \<and> vlength (vsub (position (alien (frames (kss @ [ks]) initial))) CENTER_AXIS)
          < vlength (vsub (cam_position (camera (frames (kss @ [ks]) initial))) CENTER_AXIS)
     \<and> PLANET_RADIUS
          < vlength (vsub (cam_position (camera (frames (kss @ [ks]) initial))) CENTER_AXIS)"
    by (rule camera_beyond_alien_exact)
  show "length64 (position (alien g)) \<noteq> 0 \<and> MIN_ZOOM \<le> cameraDistance g \<longrightarrow>
      (1 - 1 / 2 ^ 50) * (ALIEN_DISTANCE + cameraDistance g)
        \<le> vlength (vsub (cam_position (camera (updateCamera64 g))) CENTER_AXIS)
      \<and> (1 - 1 / 2 ^ 50) * vlength (vsub (cam_position (camera (updateCamera64 g))) CENTER_AXIS)
        \<le> ALIEN_DISTANCE + cameraDistance g
      \<and> (1 - 1 / 2 ^ 50) * (ALIEN_DISTANCE + MIN_ZOOM)
        \<le> vlength (vsub (cam_position (camera (updateCamera64 g))) CENTER_AXIS)
      \<and> PLANET_RADIUS < vlength (vsub (cam_position (camera (updateCamera64 g))) CENTER_AXIS)
      \<and> (1 - 1 / 2 ^ 50) * ALIEN_DISTANCE
        \<le> vlength (vsub (position (alien (updateAlien64 g))) CENTER_AXIS)
      \<and> (1 - 1 / 2 ^ 50) * vlength (vsub (position (alien (updateAlien64 g))) CENTER_AXIS)
        \<le> ALIEN_DISTANCE
      \<and> vlength (vsub (position (alien (updateAlien64 g))) CENTER_AXIS)
        < vlength (vsub (cam_position (camera (updateCamera64 (updateAlien64 g)))) CENTER_AXIS)
      \<and> PLANET_RADIUS
        < vlength (vsub (cam_position (camera (updateCamera64 (updateAlien64 g)))) CENTER_AXIS)"
    using camera64_beyond [of g] by blast
qed

theorem camera_beyond_alien_witness:
  "position (alien initial) \<noteq> CENTER_AXIS \<and> MIN_ZOOM \<le> cameraDistance initial
   \<and> vlength (vsub (cam_position (camera (updateCamera initial))) CENTER_AXIS) = 1210
   \<and> vlength (vsub (position (alien (frames ([] @ [holding ''o'']) initial))) CENTER_AXIS) = 1010
   \<and> vlength (vsub (cam_position (camera (frames ([] @ [holding ''o'']) initial))) CENTER_AXIS)
       = 1200
   \<and> length64 (position (alien afterASS)) \<noteq> 0 \<and> MIN_ZOOM \<le> cameraDistance afterASS
   \<and> PLANET_RADIUS
       < vlength (vsub (cam_position (camera (updateCamera64 (updateAlien64 afterASS)))) CENTER_AXIS)
   \<and> vlength (vsub (position (alien (updateAlien64 afterASS))) CENTER_AXIS)
       < vlength (vsub (cam_position (camera (updateCamera64 (updateAlien64 afterASS)))) CENTER_AXIS)"
proof -
  have n: "position (alien initial) \<noteq> CENTER_AXIS"
    by (simp add: initial_fields CENTER_AXIS_def vec_eq_iff ALIEN_DISTANCE_val)
  have z: "MIN_ZOOM \<le> cameraDistance initial"
    by (simp add: zoom_initial)
  have d: "cameraDistance (frames ([] @ [holding ''o'']) initial) = 190"
    by (simp add: cameraDistance_animate cameraDistance_handleInput initial_fields
        MIN_ZOOM_def ZOOM_SPEED_def)
  have old: "position (alien initial) \<noteq> CENTER_AXIS \<and> MIN_ZOOM \<le> cameraDistance initial
   \<and> vlength (vsub (cam_position (camera (updateCamera initial))) CENTER_AXIS) = 1210
   \<and> vlength (vsub (position (alien (frames ([] @ [holding ''o'']) initial))) CENTER_AXIS) = 1010
   \<and> vlength (vsub (cam_position (camera (frames ([] @ [holding ''o'']) initial))) CENTER_AXIS)
       = 1200"
    using camera_beyond_alien [of initial "[]" "holding ''o''", THEN conjunct1] n z
    by (simp only: d simp_thms) (simp add: initial_fields ALIEN_DISTANCE_val)
  have f: "length64 (position (alien afterASS)) \<noteq> 0"
    unfolding ass64_position ass64_length by (rule ass64_length_nonzero)
  have m: "MIN_ZOOM \<le> cameraDistance afterASS"
    by (simp add: ass64_cameraDistance MIN_ZOOM_def)
  note t = camera_beyond_alien [of afterASS, THEN conjunct2, rule_format, OF conjI [OF f m]]
  from old f m t show ?thesis
    by blast
qed

text \<open>
  C10, as the specification states it, fails in the arithmetic of the code. In the
  third frame of a run with A down, then S, then S, the zoom distance is 200 and the
  camera is set to \<^verbatim>\<open>(-1.2094152649033043, 1208.4878150779089, 60.46270026171719)\<close>. Its
  distance from the centre is not 1210, and \<^verbatim>\<open>length()\<close> of it is
  \<^verbatim>\<open>1209.9999999999998\<close>.
\<close>

theorem camera_distance_not_exact_in_binary64:
  "cam_position (camera (updateCamera64 afterASS)) = vec (- (5446722136354711 / 2 ^ 52)) (5314985618815093 / 2 ^ 42) (4254684287007555 / 2 ^ 46)
   \<and> vlength (vsub (cam_position (camera (updateCamera64 afterASS))) CENTER_AXIS)
       \<noteq> ALIEN_DISTANCE + cameraDistance afterASS
   \<and> length64 (cam_position (camera (updateCamera64 afterASS))) = (5321636278435839 / 2 ^ 42)
   \<and> length64 (cam_position (camera (updateCamera64 afterASS)))
       < ALIEN_DISTANCE + cameraDistance afterASS"
proof -
  have d: "ALIEN_DISTANCE + cameraDistance afterASS = 1210"
    by (simp add: ALIEN_DISTANCE_val ass64_cameraDistance)
  have "lengthSq (vec (- (5446722136354711 / 2 ^ 52)) (5314985618815093 / 2 ^ 42) (4254684287007555 / 2 ^ 46)) \<noteq> 1210 * 1210"
    by (simp add: lengthSq_vec)
  then have "sqrt (lengthSq (vec (- (5446722136354711 / 2 ^ 52)) (5314985618815093 / 2 ^ 42) (4254684287007555 / 2 ^ 46))) \<noteq> 1210"
    using sqrt_eq_square [OF _ lengthSq_nonneg] by blast
  then have n: "vlength (vsub (cam_position (camera (updateCamera64 afterASS))) CENTER_AXIS)
       \<noteq> ALIEN_DISTANCE + cameraDistance afterASS"
    by (simp only: vsub_center ass64_camera vlength_lengthSq d simp_thms)
  have l: "length64 (cam_position (camera (updateCamera64 afterASS))) = (5321636278435839 / 2 ^ 42)"
    by (simp only: ass64_camera ass64_camera_length)
  have "((5321636278435839 / 2 ^ 42) :: real) < 1210"
    by simp
  then have lt: "length64 (cam_position (camera (updateCamera64 afterASS)))
       < ALIEN_DISTANCE + cameraDistance afterASS"
    by (simp only: l d)
  from ass64_camera n l lt show ?thesis
    by blast
qed

end
